theory Spec2Isabelle
  imports Complex_Main "HOL-Library.AList" "HOL-Library.Multiset"
begin

section \<open>The Handy API client (src/api/handyApi.ts)\<close>

text \<open>
  A shallow embedding of the class \<open>HandyApi\<close>. An operation of the class becomes a
  function from the object's fields (\<open>api\<close>) and the outside world (\<open>world\<close>: the
  local clock and the network) to its result and the fields and world afterwards. The
  operations are \<open>async\<close>, but every \<open>await\<close> is awaited before the next statement
  runs, so one operation is a sequential computation.

  JavaScript numbers are modelled as real numbers and the arithmetic as exact: the
  rounding of IEEE doubles, \<open>NaN\<close> and the infinities are not modelled. \<open>Date.now()\<close>
  yields a whole number of milliseconds, an \<open>int\<close>. \<open>console.error\<close> and
  \<open>console.warn\<close> have no effect on a result and are left out. An argument with
  a default value (\<open>playbackRate = 1.0\<close>, \<open>loop = false\<close>, \<open>filter = 0.5\<close>,
  \<open>sampleCount = 10\<close>, \<open>connectionKey = ''\<close>) is always passed.
\<close>

subsection \<open>JavaScript values\<close>

text \<open>
  What \<open>response.json()\<close> can yield, and \<open>undefined\<close> for a member that is absent.
  An object is the list of its members in the order of the text; \<open>JSON.parse\<close> keeps
  the last of two members of one name.
\<close>

datatype jsv =
    Undefined
  | Null
  | Bool bool
  | Num real
  | Str string
  | Arr "jsv list"
  | Obj "(string \<times> jsv) list"

datatype exn = NetworkError | SyntaxError | TypeError

text \<open>\<open>!!v\<close>: \<open>undefined\<close>, \<open>null\<close>, \<open>false\<close>, \<open>0\<close> and \<open>''\<close> are falsy.\<close>

fun truthy :: "jsv \<Rightarrow> bool" where
  "truthy Undefined = False"
| "truthy Null = False"
| "truthy (Bool b) = b"
| "truthy (Num r) = (r \<noteq> 0)"
| "truthy (Str s) = (s \<noteq> [])"
| "truthy (Arr xs) = True"
| "truthy (Obj kvs) = True"

text \<open>
  \<open>v.k\<close> for the member names the source reads (\<open>result\<close>, \<open>connected\<close>, \<open>mode\<close>,
  \<open>stream_id\<close>, \<open>offset\<close>, \<open>server_time\<close>): a TypeError on \<open>null\<close> and
  \<open>undefined\<close>, the member of an object, and \<open>undefined\<close> on a boolean, a number, a
  string or an array, none of which has a property of one of these names.
\<close>

fun get_prop :: "jsv \<Rightarrow> string \<Rightarrow> exn + jsv" where
  "get_prop Undefined k = Inl TypeError"
| "get_prop Null k = Inl TypeError"
| "get_prop (Obj kvs) k = (case map_of (rev kvs) k of None \<Rightarrow> Inr Undefined | Some v \<Rightarrow> Inr v)"
| "get_prop v k = Inr Undefined"

text \<open>\<open>v?.k\<close>: \<open>undefined\<close> when \<open>v\<close> is \<open>null\<close> or \<open>undefined\<close>.\<close>

fun opt_chain :: "jsv \<Rightarrow> string \<Rightarrow> jsv" where
  "opt_chain Undefined k = Undefined"
| "opt_chain Null k = Undefined"
| "opt_chain (Obj kvs) k = (case map_of (rev kvs) k of None \<Rightarrow> Undefined | Some v \<Rightarrow> v)"
| "opt_chain v k = Undefined"

text \<open>\<open>a || b\<close> and \<open>a ?? b\<close>.\<close>

definition js_or :: "jsv \<Rightarrow> jsv \<Rightarrow> jsv" where
  "js_or a b = (if truthy a then a else b)"

definition nullish :: "jsv \<Rightarrow> jsv \<Rightarrow> jsv" where
  "nullish a b = (if a = Undefined \<or> a = Null then b else a)"

text \<open>\<open>Math.round\<close>: the nearest integer, a half rounded towards plus infinity.\<close>

definition Math_round :: "real \<Rightarrow> int" where
  "Math_round x = \<lfloor>x + 1 / 2\<rfloor>"

text \<open>Sequencing of a computation that may throw.\<close>

fun bind_exn :: "exn + 'a \<Rightarrow> ('a \<Rightarrow> exn + 'b) \<Rightarrow> exn + 'b" where
  "bind_exn (Inl e) f = Inl e"
| "bind_exn (Inr v) f = f v"

text \<open>\<open>try { return body } catch (error) { return fallback }\<close>.\<close>

fun try_catch :: "exn + 'a \<Rightarrow> 'a \<Rightarrow> 'a" where
  "try_catch (Inl e) fallback = fallback"
| "try_catch (Inr v) fallback = v"

subsection \<open>The object and the world\<close>

record api =
  baseUrl :: string
  applicationId :: string
  connectionKey :: string
  serverTimeOffset :: real

text \<open>
  The second argument of \<open>fetch\<close>. \<open>http_method\<close> is its member \<open>method\<close>
  (the name is a keyword here). \<open>body\<close> holds the value handed to
  \<open>JSON.stringify\<close>; the serialisation is not modelled. \<open>headers\<close> is the list of
  header names and values, empty when the member is absent.
\<close>

record requestInit =
  http_method :: "string option"
  headers :: "(string \<times> string) list"
  body :: "jsv option"

text \<open>
  How one \<open>fetch\<close> with \<open>response.json()\<close> ends: \<open>fetch\<close> rejects, the body is not
  JSON, or the parsed body.
\<close>

datatype reply = Rejected | BadJson | Json jsv

text \<open>
  The world: \<open>clock w n\<close> is what the \<open>n\<close>-th call of \<open>Date.now()\<close> returns and
  \<open>ticks\<close> counts the calls made; \<open>sent\<close> lists the requests made, by \<open>fetch\<close> and by
  \<open>new EventSource\<close>, each with its URL and the second argument of \<open>fetch\<close> (\<open>None\<close>
  when there is none); \<open>net w n\<close> is how a \<open>fetch\<close> ends that is request number \<open>n\<close>.
\<close>

record world =
  clock :: "nat \<Rightarrow> int"
  ticks :: nat
  net :: "nat \<Rightarrow> reply"
  sent :: "(string \<times> requestInit option) list"

definition Date_now :: "world \<Rightarrow> int \<times> world" where
  "Date_now w = (clock w (ticks w), w\<lparr>ticks := Suc (ticks w)\<rparr>)"

definition fetch :: "string \<Rightarrow> requestInit option \<Rightarrow> world \<Rightarrow> reply \<times> world" where
  "fetch u init w = (net w (length (sent w)), w\<lparr>sent := sent w @ [(u, init)]\<rparr>)"

text \<open>\<open>await response.json()\<close> after \<open>await fetch(...)\<close>.\<close>

fun parsed :: "reply \<Rightarrow> exn + jsv" where
  "parsed Rejected = Inl NetworkError"
| "parsed BadJson = Inl SyntaxError"
| "parsed (Json d) = Inr d"

subsection \<open>Constructor, accessors, headers\<close>

definition HandyApi :: "string \<Rightarrow> string \<Rightarrow> string \<Rightarrow> api" where
  "HandyApi b a k = \<lparr>baseUrl = b, applicationId = a, connectionKey = k, serverTimeOffset = 0\<rparr>"

definition createHandyApi :: "string \<Rightarrow> string \<Rightarrow> string \<Rightarrow> api" where
  "createHandyApi b a k = HandyApi b a k"

definition setConnectionKey :: "string \<Rightarrow> api \<Rightarrow> api" where
  "setConnectionKey k a = a\<lparr>connectionKey := k\<rparr>"

definition getConnectionKey :: "api \<Rightarrow> string" where
  "getConnectionKey a = connectionKey a"

definition setServerTimeOffset :: "real \<Rightarrow> api \<Rightarrow> api" where
  "setServerTimeOffset off a = a\<lparr>serverTimeOffset := off\<rparr>"

definition getServerTimeOffset :: "api \<Rightarrow> real" where
  "getServerTimeOffset a = serverTimeOffset a"

definition estimateServerTime :: "api \<Rightarrow> world \<Rightarrow> int \<times> world" where
  "estimateServerTime a w =
     (let (now, w') = Date_now w in (Math_round (of_int now + serverTimeOffset a), w'))"

definition getHeaders :: "api \<Rightarrow> (string \<times> string) list" where
  "getHeaders a =
     [(''X-Connection-Key'', connectionKey a),
      (''Authorization'', ''Bearer '' @ applicationId a),
      (''Content-Type'', ''application/json''),
      (''Accept'', ''application/json'')]"

text \<open>\<open>{ ...a, ...b }\<close> on header lists: a member of \<open>b\<close> replaces the one of \<open>a\<close>.\<close>

definition spread :: "(string \<times> string) list \<Rightarrow> (string \<times> string) list \<Rightarrow> (string \<times> string) list" where
  "spread a b = foldl (\<lambda>hs (k, v). AList.update k v hs) a b"

text \<open>
  The options the callers of \<open>request\<close> pass: none (the default \<open>{}\<close>), or
  \<open>{ method: 'PUT', body: JSON.stringify(b) }\<close>, where \<open>stop\<close> passes no body.
\<close>

definition no_options :: requestInit where
  "no_options = \<lparr>http_method = None, headers = [], body = None\<rparr>"

definition put :: "jsv option \<Rightarrow> requestInit" where
  "put b = \<lparr>http_method = Some ''PUT'', headers = [], body = b\<rparr>"

text \<open>
  The private \<open>request\<close>: its \<open>catch\<close> logs and throws the error again, so the
  result is the exception or the parsed body.
\<close>

definition request :: "api \<Rightarrow> string \<Rightarrow> requestInit \<Rightarrow> world \<Rightarrow> (exn + jsv) \<times> world" where
  "request a endpoint options w =
     (let (r, w') = fetch (baseUrl a @ endpoint)
                      (Some (options\<lparr>headers := spread (getHeaders a) (headers options)\<rparr>)) w
      in (parsed r, w'))"

subsection \<open>The public operations\<close>

text \<open>
  Each operation is \<open>try { body } catch (error) { log; return fallback }\<close>. The
  function named \<open>_try\<close> is the body, with the exception it may throw; the operation
  is the body under \<open>try_catch\<close>.
\<close>

definition isConnected_try :: "api \<Rightarrow> world \<Rightarrow> (exn + bool) \<times> world" where
  "isConnected_try a w =
     (let (r, w') = request a ''/connected'' no_options w
      in (bind_exn r (\<lambda>response.
            bind_exn (get_prop response ''result'') (\<lambda>res.
              Inr (truthy (opt_chain res ''connected'')))), w'))"

definition isConnected :: "api \<Rightarrow> world \<Rightarrow> bool \<times> world" where
  "isConnected a w = (let (r, w') = isConnected_try a w in (try_catch r False, w'))"

definition getDeviceInfo_try :: "api \<Rightarrow> world \<Rightarrow> (exn + jsv) \<times> world" where
  "getDeviceInfo_try a w =
     (let (r, w') = request a ''/info'' no_options w
      in (bind_exn r (\<lambda>response.
            bind_exn (get_prop response ''result'') (\<lambda>res.
              Inr (js_or res Null))), w'))"

definition getDeviceInfo :: "api \<Rightarrow> world \<Rightarrow> jsv \<times> world" where
  "getDeviceInfo a w = (let (r, w') = getDeviceInfo_try a w in (try_catch r Null, w'))"

definition getMode_try :: "api \<Rightarrow> world \<Rightarrow> (exn + jsv) \<times> world" where
  "getMode_try a w =
     (let (r, w') = request a ''/mode'' no_options w
      in (bind_exn r (\<lambda>response.
            bind_exn (get_prop response ''result'') (\<lambda>res.
              Inr (nullish (opt_chain res ''mode'') Null))), w'))"

definition getMode :: "api \<Rightarrow> world \<Rightarrow> jsv \<times> world" where
  "getMode a w = (let (r, w') = getMode_try a w in (try_catch r Null, w'))"

definition setupScript_try :: "string \<Rightarrow> api \<Rightarrow> world \<Rightarrow> (exn + bool) \<times> world" where
  "setupScript_try scriptUrl a w =
     (let (r, w') = request a ''/hssp/setup'' (put (Some (Obj [(''url'', Str scriptUrl)]))) w
      in (bind_exn r (\<lambda>response.
            bind_exn (get_prop response ''result'') (\<lambda>res.
              Inr (truthy (opt_chain res ''stream_id'')))), w'))"

definition setupScript :: "string \<Rightarrow> api \<Rightarrow> world \<Rightarrow> bool \<times> world" where
  "setupScript scriptUrl a w =
     (let (r, w') = setupScript_try scriptUrl a w in (try_catch r False, w'))"

text \<open>
  The body of \<open>play\<close> is built before \<open>request\<close> is called: \<open>estimateServerTime\<close>
  reads the clock first.
\<close>

definition play_body :: "real \<Rightarrow> int \<Rightarrow> real \<Rightarrow> bool \<Rightarrow> jsv" where
  "play_body videoTime server_time playbackRate loop =
     Obj [(''start_time'', Num (of_int (Math_round (videoTime * 1000)))),
          (''server_time'', Num (of_int server_time)),
          (''playback_rate'', Num playbackRate),
          (''loop'', Bool loop)]"

definition play_try :: "real \<Rightarrow> real \<Rightarrow> bool \<Rightarrow> api \<Rightarrow> world \<Rightarrow> (exn + jsv) \<times> world" where
  "play_try videoTime playbackRate loop a w =
     (let (server_time, w1) = estimateServerTime a w;
          (r, w') = request a ''/hssp/play''
                      (put (Some (play_body videoTime server_time playbackRate loop))) w1
      in (bind_exn r (\<lambda>response.
            bind_exn (get_prop response ''result'') (\<lambda>res.
              Inr (js_or res Null))), w'))"

definition play :: "real \<Rightarrow> real \<Rightarrow> bool \<Rightarrow> api \<Rightarrow> world \<Rightarrow> jsv \<times> world" where
  "play videoTime playbackRate loop a w =
     (let (r, w') = play_try videoTime playbackRate loop a w in (try_catch r Null, w'))"

definition stop_try :: "api \<Rightarrow> world \<Rightarrow> (exn + jsv) \<times> world" where
  "stop_try a w =
     (let (r, w') = request a ''/hssp/stop'' (put None) w
      in (bind_exn r (\<lambda>response.
            bind_exn (get_prop response ''result'') (\<lambda>res.
              Inr (js_or res Null))), w'))"

definition stop :: "api \<Rightarrow> world \<Rightarrow> jsv \<times> world" where
  "stop a w = (let (r, w') = stop_try a w in (try_catch r Null, w'))"

definition synctime_body :: "real \<Rightarrow> int \<Rightarrow> real \<Rightarrow> jsv" where
  "synctime_body videoTime server_time filter_coeff =
     Obj [(''current_time'', Num (of_int (Math_round (videoTime * 1000)))),
          (''server_time'', Num (of_int server_time)),
          (''filter'', Num filter_coeff)]"

definition syncVideoTime_try :: "real \<Rightarrow> real \<Rightarrow> api \<Rightarrow> world \<Rightarrow> (exn + bool) \<times> world" where
  "syncVideoTime_try videoTime filter_coeff a w =
     (let (server_time, w1) = estimateServerTime a w;
          (r, w') = request a ''/hssp/synctime''
                      (put (Some (synctime_body videoTime server_time filter_coeff))) w1
      in (bind_exn r (\<lambda>response.
            bind_exn (get_prop response ''result'') (\<lambda>res.
              Inr (truthy (opt_chain res ''stream_id'')))), w'))"

definition syncVideoTime :: "real \<Rightarrow> real \<Rightarrow> api \<Rightarrow> world \<Rightarrow> bool \<times> world" where
  "syncVideoTime videoTime filter_coeff a w =
     (let (r, w') = syncVideoTime_try videoTime filter_coeff a w in (try_catch r False, w'))"

definition getOffset_try :: "api \<Rightarrow> world \<Rightarrow> (exn + jsv) \<times> world" where
  "getOffset_try a w =
     (let (r, w') = request a ''/hstp/offset'' no_options w
      in (bind_exn r (\<lambda>response.
            bind_exn (get_prop response ''result'') (\<lambda>res.
              Inr (js_or (opt_chain res ''offset'') (Num 0)))), w'))"

definition getOffset :: "api \<Rightarrow> world \<Rightarrow> jsv \<times> world" where
  "getOffset a w = (let (r, w') = getOffset_try a w in (try_catch r (Num 0), w'))"

definition setOffset_try :: "real \<Rightarrow> api \<Rightarrow> world \<Rightarrow> (exn + bool) \<times> world" where
  "setOffset_try off a w =
     (let (r, w') = request a ''/hstp/offset'' (put (Some (Obj [(''offset'', Num off)]))) w
      in (bind_exn r (\<lambda>response.
            bind_exn (get_prop response ''result'') (\<lambda>res.
              Inr (res = Str ''ok''))), w'))"

definition setOffset :: "real \<Rightarrow> api \<Rightarrow> world \<Rightarrow> bool \<times> world" where
  "setOffset off a w = (let (r, w') = setOffset_try off a w in (try_catch r False, w'))"

definition getStrokeSettings_try :: "api \<Rightarrow> world \<Rightarrow> (exn + jsv) \<times> world" where
  "getStrokeSettings_try a w =
     (let (r, w') = request a ''/slider/stroke'' no_options w
      in (bind_exn r (\<lambda>response.
            bind_exn (get_prop response ''result'') (\<lambda>res.
              Inr (js_or res Null))), w'))"

definition getStrokeSettings :: "api \<Rightarrow> world \<Rightarrow> jsv \<times> world" where
  "getStrokeSettings a w = (let (r, w') = getStrokeSettings_try a w in (try_catch r Null, w'))"

definition setStrokeSettings_try :: "real \<Rightarrow> real \<Rightarrow> api \<Rightarrow> world \<Rightarrow> (exn + jsv) \<times> world" where
  "setStrokeSettings_try smin smax a w =
     (let (r, w') = request a ''/slider/stroke''
                      (put (Some (Obj [(''min'', Num smin), (''max'', Num smax)]))) w
      in (bind_exn r (\<lambda>response.
            bind_exn (get_prop response ''result'') (\<lambda>res.
              Inr (js_or res Null))), w'))"

definition setStrokeSettings :: "real \<Rightarrow> real \<Rightarrow> api \<Rightarrow> world \<Rightarrow> jsv \<times> world" where
  "setStrokeSettings smin smax a w =
     (let (r, w') = setStrokeSettings_try smin smax a w in (try_catch r Null, w'))"

text \<open>\<open>getServerTime\<close> calls \<open>fetch\<close> itself, with the URL alone.\<close>

definition getServerTime_try :: "api \<Rightarrow> world \<Rightarrow> (exn + jsv) \<times> world" where
  "getServerTime_try a w =
     (let (r, w') = fetch (baseUrl a @ ''/servertime'') None w
      in (bind_exn (parsed r) (\<lambda>data.
            bind_exn (get_prop data ''server_time'') (\<lambda>t.
              Inr (js_or t Null))), w'))"

definition getServerTime :: "api \<Rightarrow> world \<Rightarrow> jsv \<times> world" where
  "getServerTime a w = (let (r, w') = getServerTime_try a w in (try_catch r Null, w'))"

text \<open>
  \<open>createEventSource\<close>: \<open>new EventSource(url)\<close> opens a GET request of the URL, which
  has the connection key and the application id in its query; an \<open>EventSource\<close> takes
  no headers from its caller. The result is modelled by the URL.
\<close>

definition createEventSource :: "api \<Rightarrow> world \<Rightarrow> string \<times> world" where
  "createEventSource a w =
     (let u = baseUrl a @ ''/sse?ck='' @ connectionKey a @ ''&apikey='' @ applicationId a
      in (u, w\<lparr>sent := sent w @ [(u, None)]\<rparr>))"

subsection \<open>syncTime\<close>

text \<open>
  \<open>getServerTime\<close> is declared to return \<open>number | null\<close>, but it returns whatever
  truthy \<open>server_time\<close> the body has, and the loop of \<open>syncTime\<close> only tests
  \<open>!serverTime\<close> before it computes \<open>rtd / 2 + serverTime\<close> and
  \<open>serverTimeEst - end\<close>. On a value that is not a number JavaScript coerces: \<open>true\<close>
  counts as 1, a string is appended to the text of \<open>rtd / 2\<close>, an array or an object is
  first turned into a string, and the subtraction reads the resulting string as a
  number. The definitions below follow ECMAScript's \<open>ToString\<close>, \<open>ToPrimitive\<close> and
  \<open>StringToNumber\<close>.

  The model's numbers are the reals, so it stops (\<open>unmodelled\<close>) where a value arises
  that is not a real number, \<open>NaN\<close> or an infinity, and where the text of a number
  inside an array would be needed that is not a whole number of magnitude at most
  \<open>2 ^ 53\<close>.
\<close>

datatype unmodelled = NotANumber | Infinite | NumberText

datatype number = Finite real | NaN | PlusInfinity | MinusInfinity

text \<open>A value, a thrown exception, or a stop of the model.\<close>

datatype 'a coerced = Done 'a | Thrown exn | Beyond unmodelled

text \<open>The decimal digits of a natural number and of an integer.\<close>

fun digits :: "nat \<Rightarrow> string" where
  "digits n = (if n < 10 then [''0123456789'' ! n]
               else digits (n div 10) @ [''0123456789'' ! (n mod 10)])"

declare digits.simps [simp del]

definition int_to_string :: "int \<Rightarrow> string" where
  "int_to_string i = (if i < 0 then CHR ''-'' # digits (nat (- i)) else digits (nat i))"

text \<open>
  \<open>ToString(rtd / 2)\<close> for the whole number \<open>rtd\<close>: a whole number or one ending in
  \<open>.5\<close>. The difference of two readings of \<open>Date.now()\<close> is below \<open>10 ^ 21\<close>, where
  JavaScript prints a number in plain decimal notation.
\<close>

definition half_to_string :: "int \<Rightarrow> string" where
  "half_to_string rtd =
     (if rtd < 0 then ''-'' else []) @ digits (nat \<bar>rtd\<bar> div 2)
       @ (if odd rtd then ''.5'' else [])"

text \<open>\<open>Number::toString\<close> of a number inside an array.\<close>

definition Number_toString :: "real \<Rightarrow> string coerced" where
  "Number_toString r =
     (if r = of_int \<lfloor>r\<rfloor> \<and> \<bar>r\<bar> \<le> 2 ^ 53 then Done (int_to_string \<lfloor>r\<rfloor>)
      else Beyond NumberText)"

text \<open>
  \<open>ToString\<close>, which for an array is \<open>join(',')\<close> (\<open>null\<close> and \<open>undefined\<close> elements
  give the empty string) and for an object is \<open>[object Object]\<close>, unless the object has
  a member \<open>toString\<close> of its own: that member is not callable, \<open>valueOf\<close> returns no
  primitive value, and \<open>ToPrimitive\<close> throws a TypeError. \<open>ToPrimitive\<close> of an array or
  object gives the same.
\<close>

fun ToString :: "jsv \<Rightarrow> string coerced" and join :: "jsv list \<Rightarrow> string coerced" where
  "ToString Undefined = Done ''undefined''"
| "ToString Null = Done ''null''"
| "ToString (Bool b) = Done (if b then ''true'' else ''false'')"
| "ToString (Num r) = Number_toString r"
| "ToString (Str s) = Done s"
| "ToString (Arr xs) = join xs"
| "ToString (Obj kvs) =
     (if map_of kvs ''toString'' \<noteq> None then Thrown TypeError else Done ''[object Object]'')"
| "join [] = Done []"
| "join (x # xs) =
     (case (if x = Undefined \<or> x = Null then Done [] else ToString x) of
        Done s \<Rightarrow> (if xs = [] then Done s
                   else (case join xs of
                           Done t \<Rightarrow> Done (s @ '','' @ t)
                         | Thrown e \<Rightarrow> Thrown e
                         | Beyond u \<Rightarrow> Beyond u))
      | Thrown e \<Rightarrow> Thrown e
      | Beyond u \<Rightarrow> Beyond u)"

text \<open>
  \<open>StringToNumber\<close>. White space is trimmed at both ends; a character of the model is a
  code unit below 256, of which these are white space.
\<close>

definition is_space :: "char \<Rightarrow> bool" where
  "is_space c = (c \<in> set [CHR 0x09, CHR 0x0A, CHR 0x0B, CHR 0x0C, CHR 0x0D, CHR 0x20, CHR 0xA0])"

definition trim :: "string \<Rightarrow> string" where
  "trim s = rev (dropWhile is_space (rev (dropWhile is_space s)))"

definition digit_value :: "char \<Rightarrow> nat option" where
  "digit_value c =
     map_of [(CHR ''0'', 0), (CHR ''1'', 1), (CHR ''2'', 2), (CHR ''3'', 3), (CHR ''4'', 4),
             (CHR ''5'', 5), (CHR ''6'', 6), (CHR ''7'', 7), (CHR ''8'', 8), (CHR ''9'', 9),
             (CHR ''a'', 10), (CHR ''b'', 11), (CHR ''c'', 12), (CHR ''d'', 13),
             (CHR ''e'', 14), (CHR ''f'', 15),
             (CHR ''A'', 10), (CHR ''B'', 11), (CHR ''C'', 12), (CHR ''D'', 13),
             (CHR ''E'', 14), (CHR ''F'', 15)] c"

text \<open>A digit of the base \<open>b\<close>, and the number a string of such digits denotes.\<close>

definition digit_in :: "nat \<Rightarrow> char \<Rightarrow> bool" where
  "digit_in b c = (case digit_value c of None \<Rightarrow> False | Some d \<Rightarrow> d < b)"

definition number_in :: "nat \<Rightarrow> string \<Rightarrow> nat" where
  "number_in b s =
     foldl (\<lambda>n c. case digit_value c of None \<Rightarrow> n | Some d \<Rightarrow> n * b + d) 0 s"

text \<open>
  \<open>StrUnsignedDecimalLiteral\<close> without \<open>Infinity\<close>: digits, an optional point and
  digits (digits on at least one side of the point), an optional exponent \<open>e\<close> or \<open>E\<close>
  with an optional sign and at least one digit. \<open>None\<close> when the string is no such
  literal.
\<close>

definition StrUnsignedDecimalLiteral :: "string \<Rightarrow> real option" where
  "StrUnsignedDecimalLiteral s =
     (let ip = takeWhile (digit_in 10) s;
          r1 = dropWhile (digit_in 10) s;
          dot = (r1 \<noteq> [] \<and> hd r1 = CHR ''.'');
          fp = (if dot then takeWhile (digit_in 10) (tl r1) else []);
          r2 = (if dot then dropWhile (digit_in 10) (tl r1) else r1);
          mantissa = real (number_in 10 ip) + real (number_in 10 fp) / 10 ^ length fp
      in if ip = [] \<and> fp = [] then None
         else (case r2 of
                 [] \<Rightarrow> Some mantissa
               | e # r3 \<Rightarrow>
                   if e = CHR ''e'' \<or> e = CHR ''E'' then
                     (case r3 of
                        [] \<Rightarrow> None
                      | sg # ds \<Rightarrow>
                          if sg = CHR ''-'' then
                            (if ds \<noteq> [] \<and> list_all (digit_in 10) ds
                             then Some (mantissa / 10 ^ number_in 10 ds) else None)
                          else if sg = CHR ''+'' then
                            (if ds \<noteq> [] \<and> list_all (digit_in 10) ds
                             then Some (mantissa * 10 ^ number_in 10 ds) else None)
                          else if list_all (digit_in 10) r3
                            then Some (mantissa * 10 ^ number_in 10 r3) else None)
                   else None))"

text \<open>\<open>StrDecimalLiteral\<close>: an optional sign, then \<open>Infinity\<close> or an unsigned literal.\<close>

definition StrDecimalLiteral :: "string \<Rightarrow> number" where
  "StrDecimalLiteral s =
     (let neg = (s \<noteq> [] \<and> hd s = CHR ''-'');
          u = (if s \<noteq> [] \<and> (hd s = CHR ''-'' \<or> hd s = CHR ''+'') then tl s else s)
      in if u = ''Infinity'' then (if neg then MinusInfinity else PlusInfinity)
         else (case StrUnsignedDecimalLiteral u of
                 None \<Rightarrow> NaN
               | Some x \<Rightarrow> Finite (if neg then - x else x)))"

text \<open>\<open>NonDecimalIntegerLiteral\<close>: \<open>0x\<close>, \<open>0o\<close> or \<open>0b\<close> (or the capital) and digits.\<close>

definition NonDecimalIntegerLiteral :: "string \<Rightarrow> real option" where
  "NonDecimalIntegerLiteral s =
     (case s of
        z # p # ds \<Rightarrow>
          if z = CHR ''0'' \<and> ds \<noteq> [] then
            (if (p = CHR ''x'' \<or> p = CHR ''X'') \<and> list_all (digit_in 16) ds
               then Some (real (number_in 16 ds))
             else if (p = CHR ''o'' \<or> p = CHR ''O'') \<and> list_all (digit_in 8) ds
               then Some (real (number_in 8 ds))
             else if (p = CHR ''b'' \<or> p = CHR ''B'') \<and> list_all (digit_in 2) ds
               then Some (real (number_in 2 ds))
             else None)
          else None
      | _ \<Rightarrow> None)"

definition StringToNumber :: "string \<Rightarrow> number" where
  "StringToNumber s =
     (let t = trim s
      in if t = [] then Finite 0
         else (case NonDecimalIntegerLiteral t of
                 Some x \<Rightarrow> Finite x
               | None \<Rightarrow> StrDecimalLiteral t))"

text \<open>What \<open>rtd / 2 + serverTime\<close> yields: a number or a string.\<close>

datatype prim = PNum real | PStr string

text \<open>
  \<open>rtd / 2 + v\<close>: a string when \<open>v\<close> is a string or becomes one (an array, an object),
  a sum of numbers otherwise (\<open>null\<close> and \<open>false\<close> count as 0, \<open>true\<close> as 1, and
  \<open>undefined\<close> gives \<open>NaN\<close>).
\<close>

definition plus_half :: "int \<Rightarrow> jsv \<Rightarrow> prim coerced" where
  "plus_half rtd v =
     (case v of
        Undefined \<Rightarrow> Beyond NotANumber
      | Null \<Rightarrow> Done (PNum (real_of_int rtd / 2))
      | Bool b \<Rightarrow> Done (PNum (real_of_int rtd / 2 + (if b then 1 else 0)))
      | Num t \<Rightarrow> Done (PNum (real_of_int rtd / 2 + t))
      | Str s \<Rightarrow> Done (PStr (half_to_string rtd @ s))
      | _ \<Rightarrow> (case ToString v of
                 Done s \<Rightarrow> Done (PStr (half_to_string rtd @ s))
               | Thrown e \<Rightarrow> Thrown e
               | Beyond u \<Rightarrow> Beyond u))"

text \<open>\<open>serverTimeEst - end\<close>: a string is read as a number first.\<close>

definition minus_int :: "prim \<Rightarrow> int \<Rightarrow> number" where
  "minus_int p e =
     (case p of
        PNum x \<Rightarrow> Finite (x - real_of_int e)
      | PStr s \<Rightarrow> (case StringToNumber s of
                     Finite x \<Rightarrow> Finite (x - real_of_int e)
                   | n \<Rightarrow> n))"

record sample =
  rtd :: real
  offset :: real

text \<open>
  One pass of the loop body: \<open>None\<close> is a pass that pushes nothing, \<open>Some s\<close> is the
  sample pushed. \<open>getServerTime\<close> throws nothing; the inner \<open>catch\<close> is entered only
  by the TypeError of \<open>rtd / 2 + serverTime\<close> on an object with a member \<open>toString\<close>,
  and the loop then goes on.
\<close>

definition probe :: "api \<Rightarrow> world \<Rightarrow> (unmodelled + sample option) \<times> world" where
  "probe a w =
     (let (start, w1) = Date_now w;
          (serverTime, w2) = getServerTime a w1
      in if \<not> truthy serverTime then (Inr None, w2)
         else (let (end', w3) = Date_now w2;
                   rtd = end' - start
               in (case plus_half rtd serverTime of
                     Thrown e \<Rightarrow> Inr None
                   | Beyond u \<Rightarrow> Inl u
                   | Done serverTimeEst \<Rightarrow>
                       (case minus_int serverTimeEst end' of
                          Finite off \<Rightarrow> Inr (Some \<lparr>rtd = real_of_int rtd, offset = off\<rparr>)
                        | NaN \<Rightarrow> Inl NotANumber
                        | PlusInfinity \<Rightarrow> Inl Infinite
                        | MinusInfinity \<Rightarrow> Inl Infinite), w3)))"

text \<open>\<open>for (let i = 0; i < sampleCount; i++)\<close>, from \<open>i\<close> on, with the samples so far.\<close>

function collect :: "real \<Rightarrow> nat \<Rightarrow> api \<Rightarrow> world \<Rightarrow> sample list \<Rightarrow> unmodelled + (sample list \<times> world)" where
  "collect sampleCount i a w samples =
     (if real i < sampleCount then
        (case probe a w of
           (Inl u, w') \<Rightarrow> Inl u
         | (Inr None, w') \<Rightarrow> collect sampleCount (Suc i) a w' samples
         | (Inr (Some s), w') \<Rightarrow> collect sampleCount (Suc i) a w' (samples @ [s]))
      else Inr (samples, w))"
  by pat_completeness auto
termination
proof (relation "measure (\<lambda>(sampleCount, i, a, w, samples). nat \<lceil>sampleCount\<rceil> - i)")
  show "wf (measure (\<lambda>(sampleCount, i, a, w, samples). nat \<lceil>sampleCount\<rceil> - i))"
    by simp
next
  fix sampleCount :: real and i :: nat and a :: api and w w' :: world and samples :: "sample list"
  assume "real i < sampleCount"
  then have "i < nat \<lceil>sampleCount\<rceil>"
    by linarith
  then show "((sampleCount, Suc i, a, w', samples), (sampleCount, i, a, w, samples))
      \<in> measure (\<lambda>(sampleCount, i, a, w, samples). nat \<lceil>sampleCount\<rceil> - i)"
    by simp
next
  fix sampleCount :: real and i :: nat and a :: api and w w' :: world and samples :: "sample list"
    and s :: sample
  assume "real i < sampleCount"
  then have "i < nat \<lceil>sampleCount\<rceil>"
    by linarith
  then show "((sampleCount, Suc i, a, w', samples @ [s]), (sampleCount, i, a, w, samples))
      \<in> measure (\<lambda>(sampleCount, i, a, w, samples). nat \<lceil>sampleCount\<rceil> - i)"
    by simp
qed

declare collect.simps [simp del]

text \<open>\<open>samples.sort((a, b) => a.rtd - b.rtd)\<close>: ascending by \<open>rtd\<close>, and stable.\<close>

definition sort_samples :: "sample list \<Rightarrow> sample list" where
  "sort_samples samples = sort_key rtd samples"

text \<open>\<open>usableSamples\<close>, of the sorted samples.\<close>

definition usableSamples :: "sample list \<Rightarrow> sample list" where
  "usableSamples samples =
     (if length samples > 3
      then take (nat \<lceil>real (length samples) * 0.8\<rceil>) samples
      else samples)"

definition averageOffset :: "sample list \<Rightarrow> real" where
  "averageOffset usable = foldl (\<lambda>acc s. acc + offset s) 0 usable / real (length usable)"

text \<open>
  The outer \<open>catch\<close> of \<open>syncTime\<close> is never entered: nothing in its \<open>try\<close> throws.
\<close>

definition syncTime :: "real \<Rightarrow> api \<Rightarrow> world \<Rightarrow> unmodelled + (real \<times> api \<times> world)" where
  "syncTime sampleCount a w =
     (case collect sampleCount 0 a w [] of
        Inl u \<Rightarrow> Inl u
      | Inr (samples, w') \<Rightarrow>
          (if length samples > 0 then
             (let sorted = sort_samples samples;
                  avg = averageOffset (usableSamples sorted)
              in Inr (avg, a\<lparr>serverTimeOffset := avg\<rparr>, w'))
           else Inr (serverTimeOffset a, a, w')))"

subsection \<open>Calls from outside\<close>

text \<open>
  The public methods of the class with their arguments, and the object and the world
  after one call. A method that assigns no field returns the object as it was.
\<close>

datatype op =
    SetConnectionKey string
  | GetConnectionKey
  | SetServerTimeOffset real
  | GetServerTimeOffset
  | EstimateServerTime
  | IsConnected
  | GetDeviceInfo
  | GetMode
  | SetupScript string
  | Play real real bool
  | Stop
  | SyncVideoTime real real
  | GetOffset
  | SetOffset real
  | GetStrokeSettings
  | SetStrokeSettings real real
  | GetServerTime
  | SyncTime real
  | CreateEventSource

fun call :: "op \<Rightarrow> api \<Rightarrow> world \<Rightarrow> unmodelled + (api \<times> world)" where
  "call (SetConnectionKey k) a w = Inr (setConnectionKey k a, w)"
| "call GetConnectionKey a w = Inr (a, w)"
| "call (SetServerTimeOffset off) a w = Inr (setServerTimeOffset off a, w)"
| "call GetServerTimeOffset a w = Inr (a, w)"
| "call EstimateServerTime a w = Inr (a, snd (estimateServerTime a w))"
| "call IsConnected a w = Inr (a, snd (isConnected a w))"
| "call GetDeviceInfo a w = Inr (a, snd (getDeviceInfo a w))"
| "call GetMode a w = Inr (a, snd (getMode a w))"
| "call (SetupScript u) a w = Inr (a, snd (setupScript u a w))"
| "call (Play videoTime playbackRate loop) a w = Inr (a, snd (play videoTime playbackRate loop a w))"
| "call Stop a w = Inr (a, snd (stop a w))"
| "call (SyncVideoTime videoTime filter_coeff) a w = Inr (a, snd (syncVideoTime videoTime filter_coeff a w))"
| "call GetOffset a w = Inr (a, snd (getOffset a w))"
| "call (SetOffset off) a w = Inr (a, snd (setOffset off a w))"
| "call GetStrokeSettings a w = Inr (a, snd (getStrokeSettings a w))"
| "call (SetStrokeSettings smin smax) a w = Inr (a, snd (setStrokeSettings smin smax a w))"
| "call GetServerTime a w = Inr (a, snd (getServerTime a w))"
| "call (SyncTime sampleCount) a w =
     (case syncTime sampleCount a w of Inl u \<Rightarrow> Inl u | Inr (r, a', w') \<Rightarrow> Inr (a', w'))"
| "call CreateEventSource a w = Inr (a, snd (createEventSource a w))"

text \<open>
  What \<open>getServerTime\<close> returns when its \<open>fetch\<close> ends with the reply \<open>r\<close>, and
  whether the probe of \<open>syncTime\<close> that gets this reply yields a sample.
\<close>

definition server_time_of :: "reply \<Rightarrow> jsv" where
  "server_time_of r =
     try_catch (bind_exn (parsed r) (\<lambda>data.
                  bind_exn (get_prop data ''server_time'') (\<lambda>t. Inr (js_or t Null)))) Null"

definition succeeds :: "reply \<Rightarrow> bool" where
  "succeeds r = truthy (server_time_of r)"

text \<open>The samples the rest of \<open>syncTime\<close> averages, of the samples collected.\<close>

definition selected :: "sample list \<Rightarrow> sample list" where
  "selected samples = usableSamples (sort_samples samples)"

text \<open>
  Whether a logged request has the connection-key header and the bearer header of the
  object \<open>a\<close>.
\<close>

definition carries_identity :: "api \<Rightarrow> string \<times> requestInit option \<Rightarrow> bool" where
  "carries_identity a rq =
     (case snd rq of
        None \<Rightarrow> False
      | Some i \<Rightarrow> map_of (headers i) ''X-Connection-Key'' = Some (connectionKey a)
                 \<and> map_of (headers i) ''Authorization'' = Some (''Bearer '' @ applicationId a))"

subsection \<open>Example inputs\<close>

definition ex_api :: api where
  "ex_api = (HandyApi ''http://h'' ''app'' ''key'')\<lparr>serverTimeOffset := 5 / 2\<rparr>"

text \<open>A world whose clock starts at \<open>t\<close> and where every \<open>fetch\<close> ends with \<open>r\<close>.\<close>

definition ex_world :: "int \<Rightarrow> reply \<Rightarrow> world" where
  "ex_world t r = \<lparr>clock = (\<lambda>n. t + 10 * int n), ticks = 0, net = (\<lambda>n. r), sent = []\<rparr>"

text \<open>The world \<open>w\<close>, but where the next \<open>fetch\<close> ends with \<open>r\<close>.\<close>

definition next_reply :: "reply \<Rightarrow> world \<Rightarrow> world" where
  "next_reply r w = w\<lparr>net := (net w)(length (sent w) := r)\<rparr>"

text \<open>
  The spec's round of ten probes with the delays 50, 10, 20, 15, 12, 11, 13, 14, 16, 18:
  the \<open>n\<close>-th reply carries the time \<open>1000 + 100 * n\<close>.
\<close>

definition ten_world :: world where
  "ten_world =
     \<lparr>clock = (\<lambda>n. [0, 50, 100, 110, 200, 220, 300, 315, 400, 412,
                      500, 511, 600, 613, 700, 714, 800, 816, 900, 918] ! n),
      ticks = 0,
      net = (\<lambda>n. Json (Obj [(''server_time'', Num (1000 + 100 * real n))])),
      sent = []\<rparr>"

definition ten_world_after :: world where
  "ten_world_after =
     ten_world\<lparr>ticks := 20, sent := replicate 10 (''http://h/servertime'', None)\<rparr>"

definition ten_samples :: "sample list" where
  "ten_samples =
     [\<lparr>rtd = 50, offset = 975\<rparr>, \<lparr>rtd = 10, offset = 995\<rparr>,
      \<lparr>rtd = 20, offset = 990\<rparr>, \<lparr>rtd = 15, offset = 1985 / 2\<rparr>,
      \<lparr>rtd = 12, offset = 994\<rparr>, \<lparr>rtd = 11, offset = 1989 / 2\<rparr>,
      \<lparr>rtd = 13, offset = 1987 / 2\<rparr>, \<lparr>rtd = 14, offset = 993\<rparr>,
      \<lparr>rtd = 16, offset = 992\<rparr>, \<lparr>rtd = 18, offset = 991\<rparr>]"

text \<open>The response envelope of the spec: an error and no result.\<close>

definition error_envelope :: jsv where
  "error_envelope =
     Obj [(''error'', Obj [(''code'', Num 4), (''name'', Str ''x''),
                           (''message'', Str ''y''), (''connected'', Bool False)])]"

section \<open>Properties\<close>

subsection \<open>Rounding\<close>

lemma Math_round_nearest: "\<bar>real_of_int (Math_round x) - x\<bar> \<le> \<bar>real_of_int k - x\<bar>"
proof -
  have lo: "real_of_int (Math_round x) \<le> x + 1 / 2"
    unfolding Math_round_def by (rule of_int_floor_le)
  have hi: "x + 1 / 2 < real_of_int (Math_round x) + 1"
    unfolding Math_round_def by linarith
  show ?thesis
  proof (cases "k \<le> Math_round x")
    case True
    show ?thesis
    proof (cases "k = Math_round x")
      case True then show ?thesis by simp
    next
      case False
      with \<open>k \<le> Math_round x\<close> have "k \<le> Math_round x - 1" by simp
      then have "real_of_int k \<le> real_of_int (Math_round x) - 1" by linarith
      with lo hi show ?thesis by linarith
    qed
  next
    case False
    then have "Math_round x + 1 \<le> k" by simp
    then have "real_of_int (Math_round x) + 1 \<le> real_of_int k" by linarith
    with lo hi show ?thesis by linarith
  qed
qed

lemma Math_round_mono: "x \<le> y \<Longrightarrow> Math_round x \<le> Math_round y"
  unfolding Math_round_def by (simp add: floor_mono)

lemma fst_estimateServerTime:
  "fst (estimateServerTime a w) = Math_round (of_int (clock w (ticks w)) + serverTimeOffset a)"
  by (simp add: estimateServerTime_def Date_now_def)

lemma snd_estimateServerTime:
  "snd (estimateServerTime a w) = w\<lparr>ticks := Suc (ticks w)\<rparr>"
  by (simp add: estimateServerTime_def Date_now_def)

text \<open>
  C4. \<open>estimateServerTime()\<close> returns an integer nearest to the local time plus the
  stored offset: no integer is closer. With the offset held fixed, a later local time
  never gives a smaller estimate.
\<close>

theorem estimateServerTime_nearest_monotone:
  "(\<forall>k::int. \<bar>real_of_int (fst (estimateServerTime a w)) - (real_of_int (clock w (ticks w)) + serverTimeOffset a)\<bar>
        \<le> \<bar>real_of_int k - (real_of_int (clock w (ticks w)) + serverTimeOffset a)\<bar>)
   \<and> (clock w (ticks w) \<le> clock w2 (ticks w2) \<longrightarrow>
        fst (estimateServerTime a w) \<le> fst (estimateServerTime a w2))"
proof (intro conjI allI impI)
  fix k :: int
  show "\<bar>real_of_int (fst (estimateServerTime a w)) - (real_of_int (clock w (ticks w)) + serverTimeOffset a)\<bar>
        \<le> \<bar>real_of_int k - (real_of_int (clock w (ticks w)) + serverTimeOffset a)\<bar>"
    unfolding fst_estimateServerTime by (rule Math_round_nearest)
next
  assume "clock w (ticks w) \<le> clock w2 (ticks w2)"
  then have "real_of_int (clock w (ticks w)) + serverTimeOffset a
      \<le> real_of_int (clock w2 (ticks w2)) + serverTimeOffset a"
    by simp
  then show "fst (estimateServerTime a w) \<le> fst (estimateServerTime a w2)"
    unfolding fst_estimateServerTime by (rule Math_round_mono)
qed

theorem estimateServerTime_nearest_monotone_witness:
  "clock (ex_world 1000 Rejected) (ticks (ex_world 1000 Rejected))
     \<le> clock (ex_world 1001 Rejected) (ticks (ex_world 1001 Rejected))
   \<and> fst (estimateServerTime ex_api (ex_world 1000 Rejected)) = 1003
   \<and> fst (estimateServerTime ex_api (ex_world 1001 Rejected)) = 1004
   \<and> fst (estimateServerTime ex_api (ex_world 1000 Rejected))
       \<le> fst (estimateServerTime ex_api (ex_world 1001 Rejected))"
  using estimateServerTime_nearest_monotone [of ex_api "ex_world 1000 Rejected" "ex_world 1001 Rejected"]
  by (simp add: ex_api_def ex_world_def HandyApi_def estimateServerTime_def Date_now_def Math_round_def)

subsection \<open>Requests\<close>

lemma spread_Nil: "spread hs [] = hs"
  by (simp add: spread_def)

lemma request_eq:
  "request a ep opts w =
     (parsed (net w (length (sent w))),
      w\<lparr>sent := sent w @ [(baseUrl a @ ep, Some (opts\<lparr>headers := spread (getHeaders a) (headers opts)\<rparr>))]\<rparr>)"
  by (simp add: request_def fetch_def)

lemma request_put:
  "request a ep (put b) w =
     (parsed (net w (length (sent w))),
      w\<lparr>sent := sent w @ [(baseUrl a @ ep, Some \<lparr>http_method = Some ''PUT'', headers = getHeaders a, body = b\<rparr>)]\<rparr>)"
  by (simp add: request_eq put_def spread_Nil)

lemma request_get:
  "request a ep no_options w =
     (parsed (net w (length (sent w))),
      w\<lparr>sent := sent w @ [(baseUrl a @ ep, Some \<lparr>http_method = None, headers = getHeaders a, body = None\<rparr>)]\<rparr>)"
  by (simp add: request_eq no_options_def spread_Nil)

lemma snd_play:
  "snd (play videoTime playbackRate loop a w) =
     w\<lparr>ticks := Suc (ticks w),
       sent := sent w @ [(baseUrl a @ ''/hssp/play'',
                Some \<lparr>http_method = Some ''PUT'', headers = getHeaders a,
                      body = Some (play_body videoTime (fst (estimateServerTime a w)) playbackRate loop)\<rparr>)]\<rparr>"
  by (simp add: play_def play_try_def request_put estimateServerTime_def Date_now_def)

lemma fst_play:
  "fst (play videoTime playbackRate loop a w) =
     (case net w (length (sent w)) of
        Json d \<Rightarrow> (case get_prop d ''result'' of
                     Inr res \<Rightarrow> if truthy res then res else Null
                   | Inl e \<Rightarrow> Null)
      | _ \<Rightarrow> Null)"
  by (simp add: play_def play_try_def request_put estimateServerTime_def Date_now_def js_or_def
           split: reply.split sum.split)

lemma snd_syncVideoTime:
  "snd (syncVideoTime videoTime filter_coeff a w) =
     w\<lparr>ticks := Suc (ticks w),
       sent := sent w @ [(baseUrl a @ ''/hssp/synctime'',
                Some \<lparr>http_method = Some ''PUT'', headers = getHeaders a,
                      body = Some (synctime_body videoTime (fst (estimateServerTime a w)) filter_coeff)\<rparr>)]\<rparr>"
  by (simp add: syncVideoTime_def syncVideoTime_try_def request_put estimateServerTime_def Date_now_def)

lemma fst_syncVideoTime:
  "fst (syncVideoTime videoTime filter_coeff a w) =
     (case net w (length (sent w)) of
        Json d \<Rightarrow> (case get_prop d ''result'' of
                     Inr res \<Rightarrow> truthy (opt_chain res ''stream_id'')
                   | Inl e \<Rightarrow> False)
      | _ \<Rightarrow> False)"
  by (simp add: syncVideoTime_def syncVideoTime_try_def request_put estimateServerTime_def Date_now_def
           split: reply.split sum.split)

text \<open>
  C5. \<open>play\<close> reads the clock once and sends one PUT to \<open>/hssp/play\<close> whose body has
  \<open>start_time = Math.round(videoTime * 1000)\<close> and, as \<open>server_time\<close>, what
  \<open>estimateServerTime()\<close> returns at that moment; it returns the \<open>result\<close> of the
  response when that is truthy and \<open>null\<close> otherwise (also when the request fails).
  \<open>syncVideoTime\<close> sends \<open>current_time = Math.round(videoTime * 1000)\<close>, the same
  estimate and the filter. A video time of 1.234 gives 1234, and 10.0 gives 10000.

  The number sent is an integer nearest to \<open>videoTime * 1000\<close>, a half rounded
  upwards: 0.0006 gives 1, 0.0625 gives 63, -0.0625 gives -62, 1.2346 gives 1235. With
  the clock at 1000 and the stored offset 2.5 the \<open>server_time\<close> sent is 1003. \<open>play\<close>
  returns the snapshot the device reports as \<open>result\<close>, whatever object it is, and
  \<open>null\<close> for a falsy \<open>result\<close>, for the error envelope, for a body \<open>null\<close>, for a
  rejected \<open>fetch\<close> and for a body that is not JSON.
\<close>

theorem play_syncVideoTime_bodies:
  "snd (play videoTime playbackRate loop a w) =
     w\<lparr>ticks := Suc (ticks w),
       sent := sent w @ [(baseUrl a @ ''/hssp/play'',
                Some \<lparr>http_method = Some ''PUT'', headers = getHeaders a,
                      body = Some (Obj [(''start_time'', Num (of_int (Math_round (videoTime * 1000)))),
                                        (''server_time'', Num (of_int (fst (estimateServerTime a w)))),
                                        (''playback_rate'', Num playbackRate),
                                        (''loop'', Bool loop)])\<rparr>)]\<rparr>
   \<and> fst (play videoTime playbackRate loop a w) =
       (case net w (length (sent w)) of
          Json d \<Rightarrow> (case get_prop d ''result'' of
                       Inr res \<Rightarrow> if truthy res then res else Null
                     | Inl e \<Rightarrow> Null)
        | _ \<Rightarrow> Null)
   \<and> snd (syncVideoTime videoTime filter_coeff a w) =
     w\<lparr>ticks := Suc (ticks w),
       sent := sent w @ [(baseUrl a @ ''/hssp/synctime'',
                Some \<lparr>http_method = Some ''PUT'', headers = getHeaders a,
                      body = Some (Obj [(''current_time'', Num (of_int (Math_round (videoTime * 1000)))),
                                        (''server_time'', Num (of_int (fst (estimateServerTime a w)))),
                                        (''filter'', Num filter_coeff)])\<rparr>)]\<rparr>
   \<and> play_body 1.234 t playbackRate loop =
       Obj [(''start_time'', Num 1234), (''server_time'', Num (of_int t)),
            (''playback_rate'', Num playbackRate), (''loop'', Bool loop)]
   \<and> synctime_body 10.0 t 0.5 =
       Obj [(''current_time'', Num 10000), (''server_time'', Num (of_int t)), (''filter'', Num 0.5)]
   \<and> (\<forall>k::int. \<bar>real_of_int (Math_round (videoTime * 1000)) - videoTime * 1000\<bar>
                 \<le> \<bar>real_of_int k - videoTime * 1000\<bar>)
   \<and> play_body 0.0006 t playbackRate loop =
       Obj [(''start_time'', Num 1), (''server_time'', Num (of_int t)),
            (''playback_rate'', Num playbackRate), (''loop'', Bool loop)]
   \<and> play_body 0.0625 t playbackRate loop =
       Obj [(''start_time'', Num 63), (''server_time'', Num (of_int t)),
            (''playback_rate'', Num playbackRate), (''loop'', Bool loop)]
   \<and> play_body (- 0.0625) t playbackRate loop =
       Obj [(''start_time'', Num (- 62)), (''server_time'', Num (of_int t)),
            (''playback_rate'', Num playbackRate), (''loop'', Bool loop)]
   \<and> synctime_body 1.2346 t filter_coeff =
       Obj [(''current_time'', Num 1235), (''server_time'', Num (of_int t)),
            (''filter'', Num filter_coeff)]
   \<and> sent (snd (play 0.0006 1 False ex_api (ex_world 1000 Rejected))) =
       [(''http://h/hssp/play'',
         Some \<lparr>http_method = Some ''PUT'',
               headers = [(''X-Connection-Key'', ''key''), (''Authorization'', ''Bearer app''),
                          (''Content-Type'', ''application/json''),
                          (''Accept'', ''application/json'')],
               body = Some (Obj [(''start_time'', Num 1), (''server_time'', Num 1003),
                                 (''playback_rate'', Num 1), (''loop'', Bool False)])\<rparr>)]
   \<and> sent (snd (syncVideoTime 10.0 0.5 ex_api (ex_world 1000 Rejected))) =
       [(''http://h/hssp/synctime'',
         Some \<lparr>http_method = Some ''PUT'',
               headers = [(''X-Connection-Key'', ''key''), (''Authorization'', ''Bearer app''),
                          (''Content-Type'', ''application/json''),
                          (''Accept'', ''application/json'')],
               body = Some (Obj [(''current_time'', Num 10000), (''server_time'', Num 1003),
                                 (''filter'', Num 0.5)])\<rparr>)]
   \<and> fst (play videoTime playbackRate loop a
            (next_reply (Json (Obj [(''result'', Obj snapshot)])) w)) = Obj snapshot
   \<and> fst (play videoTime playbackRate loop a
            (next_reply (Json (Obj [(''result'', Str ''playing'')])) w)) = Str ''playing''
   \<and> fst (play videoTime playbackRate loop a
            (next_reply (Json (Obj [(''result'', Num 0)])) w)) = Null
   \<and> fst (play videoTime playbackRate loop a (next_reply (Json error_envelope) w)) = Null
   \<and> fst (play videoTime playbackRate loop a (next_reply (Json Null) w)) = Null
   \<and> fst (play videoTime playbackRate loop a (next_reply Rejected w)) = Null
   \<and> fst (play videoTime playbackRate loop a (next_reply BadJson w)) = Null"
proof (intro conjI)
  show "snd (play videoTime playbackRate loop a w) =
     w\<lparr>ticks := Suc (ticks w),
       sent := sent w @ [(baseUrl a @ ''/hssp/play'',
                Some \<lparr>http_method = Some ''PUT'', headers = getHeaders a,
                      body = Some (Obj [(''start_time'', Num (of_int (Math_round (videoTime * 1000)))),
                                        (''server_time'', Num (of_int (fst (estimateServerTime a w)))),
                                        (''playback_rate'', Num playbackRate),
                                        (''loop'', Bool loop)])\<rparr>)]\<rparr>"
    by (simp only: snd_play play_body_def)
  show "fst (play videoTime playbackRate loop a w) =
       (case net w (length (sent w)) of
          Json d \<Rightarrow> (case get_prop d ''result'' of
                       Inr res \<Rightarrow> if truthy res then res else Null
                     | Inl e \<Rightarrow> Null)
        | _ \<Rightarrow> Null)"
    by (rule fst_play)
  show "snd (syncVideoTime videoTime filter_coeff a w) =
     w\<lparr>ticks := Suc (ticks w),
       sent := sent w @ [(baseUrl a @ ''/hssp/synctime'',
                Some \<lparr>http_method = Some ''PUT'', headers = getHeaders a,
                      body = Some (Obj [(''current_time'', Num (of_int (Math_round (videoTime * 1000)))),
                                        (''server_time'', Num (of_int (fst (estimateServerTime a w)))),
                                        (''filter'', Num filter_coeff)])\<rparr>)]\<rparr>"
    by (simp only: snd_syncVideoTime synctime_body_def)
  show "play_body 1.234 t playbackRate loop =
       Obj [(''start_time'', Num 1234), (''server_time'', Num (of_int t)),
            (''playback_rate'', Num playbackRate), (''loop'', Bool loop)]"
    by (simp add: play_body_def Math_round_def)
  show "synctime_body 10.0 t 0.5 =
       Obj [(''current_time'', Num 10000), (''server_time'', Num (of_int t)), (''filter'', Num 0.5)]"
    by (simp add: synctime_body_def Math_round_def)
  show "\<forall>k::int. \<bar>real_of_int (Math_round (videoTime * 1000)) - videoTime * 1000\<bar>
                 \<le> \<bar>real_of_int k - videoTime * 1000\<bar>"
    by (rule allI) (rule Math_round_nearest)
  show "play_body 0.0006 t playbackRate loop =
       Obj [(''start_time'', Num 1), (''server_time'', Num (of_int t)),
            (''playback_rate'', Num playbackRate), (''loop'', Bool loop)]"
    by (simp add: play_body_def Math_round_def)
  show "play_body 0.0625 t playbackRate loop =
       Obj [(''start_time'', Num 63), (''server_time'', Num (of_int t)),
            (''playback_rate'', Num playbackRate), (''loop'', Bool loop)]"
    by (simp add: play_body_def Math_round_def)
  show "play_body (- 0.0625) t playbackRate loop =
       Obj [(''start_time'', Num (- 62)), (''server_time'', Num (of_int t)),
            (''playback_rate'', Num playbackRate), (''loop'', Bool loop)]"
    by (simp add: play_body_def Math_round_def)
  show "synctime_body 1.2346 t filter_coeff =
       Obj [(''current_time'', Num 1235), (''server_time'', Num (of_int t)),
            (''filter'', Num filter_coeff)]"
    by (simp add: synctime_body_def Math_round_def)
  show "sent (snd (play 0.0006 1 False ex_api (ex_world 1000 Rejected))) =
       [(''http://h/hssp/play'',
         Some \<lparr>http_method = Some ''PUT'',
               headers = [(''X-Connection-Key'', ''key''), (''Authorization'', ''Bearer app''),
                          (''Content-Type'', ''application/json''),
                          (''Accept'', ''application/json'')],
               body = Some (Obj [(''start_time'', Num 1), (''server_time'', Num 1003),
                                 (''playback_rate'', Num 1), (''loop'', Bool False)])\<rparr>)]"
    by (simp add: snd_play play_body_def fst_estimateServerTime Math_round_def getHeaders_def
          ex_api_def ex_world_def HandyApi_def)
  show "sent (snd (syncVideoTime 10.0 0.5 ex_api (ex_world 1000 Rejected))) =
       [(''http://h/hssp/synctime'',
         Some \<lparr>http_method = Some ''PUT'',
               headers = [(''X-Connection-Key'', ''key''), (''Authorization'', ''Bearer app''),
                          (''Content-Type'', ''application/json''),
                          (''Accept'', ''application/json'')],
               body = Some (Obj [(''current_time'', Num 10000), (''server_time'', Num 1003),
                                 (''filter'', Num 0.5)])\<rparr>)]"
    by (simp add: snd_syncVideoTime synctime_body_def fst_estimateServerTime Math_round_def
          getHeaders_def ex_api_def ex_world_def HandyApi_def)
  show "fst (play videoTime playbackRate loop a
            (next_reply (Json (Obj [(''result'', Obj snapshot)])) w)) = Obj snapshot"
    by (simp add: fst_play next_reply_def)
  show "fst (play videoTime playbackRate loop a
            (next_reply (Json (Obj [(''result'', Str ''playing'')])) w)) = Str ''playing''"
    by (simp add: fst_play next_reply_def)
  show "fst (play videoTime playbackRate loop a
            (next_reply (Json (Obj [(''result'', Num 0)])) w)) = Null"
    by (simp add: fst_play next_reply_def)
  show "fst (play videoTime playbackRate loop a (next_reply (Json error_envelope) w)) = Null"
    by (simp add: fst_play next_reply_def error_envelope_def)
  show "fst (play videoTime playbackRate loop a (next_reply (Json Null) w)) = Null"
    by (simp add: fst_play next_reply_def)
  show "fst (play videoTime playbackRate loop a (next_reply Rejected w)) = Null"
    by (simp add: fst_play next_reply_def)
  show "fst (play videoTime playbackRate loop a (next_reply BadJson w)) = Null"
    by (simp add: fst_play next_reply_def)
qed

lemma fst_setupScript:
  "fst (setupScript u a w) =
     (case net w (length (sent w)) of
        Json d \<Rightarrow> (case get_prop d ''result'' of
                     Inr res \<Rightarrow> truthy (opt_chain res ''stream_id'')
                   | Inl e \<Rightarrow> False)
      | _ \<Rightarrow> False)"
  by (simp add: setupScript_def setupScript_try_def request_put split: reply.split sum.split)

lemma next_reply_simps:
  "net (next_reply r w) (length (sent w)) = r"
  "sent (next_reply r w) = sent w"
  "ticks (next_reply r w) = ticks w"
  "clock (next_reply r w) = clock w"
  by (simp_all add: next_reply_def)

text \<open>
  C6. \<open>setupScript\<close> returns true exactly when the response is a body whose
  \<open>result.stream_id\<close> is truthy: false for \<open>{result: {}}\<close>, for a rejected
  \<open>fetch\<close> and for a body that is not JSON, and for a string identifier true
  exactly when the string is not empty. The flag of \<open>syncVideoTime\<close> is true under
  the same condition.
\<close>

theorem setupScript_true_iff_stream_id:
  "fst (setupScript u a w) =
     (\<exists>d res. net w (length (sent w)) = Json d \<and> get_prop d ''result'' = Inr res
              \<and> truthy (opt_chain res ''stream_id''))
   \<and> \<not> fst (setupScript u a (next_reply (Json (Obj [(''result'', Obj [])])) w))
   \<and> \<not> fst (setupScript u a (next_reply Rejected w))
   \<and> \<not> fst (setupScript u a (next_reply BadJson w))
   \<and> fst (setupScript u a (next_reply (Json (Obj [(''result'', Obj [(''stream_id'', Str s)])])) w))
       = (s \<noteq> [])
   \<and> fst (syncVideoTime videoTime filter_coeff a w) =
     (\<exists>d res. net w (length (sent w)) = Json d \<and> get_prop d ''result'' = Inr res
              \<and> truthy (opt_chain res ''stream_id''))
   \<and> \<not> fst (syncVideoTime videoTime filter_coeff a (next_reply (Json (Obj [(''result'', Obj [])])) w))"
proof (intro conjI)
  show "fst (setupScript u a w) =
     (\<exists>d res. net w (length (sent w)) = Json d \<and> get_prop d ''result'' = Inr res
              \<and> truthy (opt_chain res ''stream_id''))"
    unfolding fst_setupScript by (auto split: reply.split sum.split)
  show "fst (syncVideoTime videoTime filter_coeff a w) =
     (\<exists>d res. net w (length (sent w)) = Json d \<and> get_prop d ''result'' = Inr res
              \<and> truthy (opt_chain res ''stream_id''))"
    unfolding fst_syncVideoTime by (auto split: reply.split sum.split)
  show "\<not> fst (setupScript u a (next_reply (Json (Obj [(''result'', Obj [])])) w))"
    by (simp add: fst_setupScript next_reply_simps)
  show "\<not> fst (setupScript u a (next_reply Rejected w))"
    by (simp add: fst_setupScript next_reply_simps)
  show "\<not> fst (setupScript u a (next_reply BadJson w))"
    by (simp add: fst_setupScript next_reply_simps)
  show "fst (setupScript u a (next_reply (Json (Obj [(''result'', Obj [(''stream_id'', Str s)])])) w))
       = (s \<noteq> [])"
    by (simp add: fst_setupScript next_reply_simps)
  show "\<not> fst (syncVideoTime videoTime filter_coeff a (next_reply (Json (Obj [(''result'', Obj [])])) w))"
    by (simp add: fst_syncVideoTime next_reply_simps)
qed

subsection \<open>The sampling loop\<close>

lemma getServerTime_eq:
  "getServerTime a w =
     (server_time_of (net w (length (sent w))),
      w\<lparr>sent := sent w @ [(baseUrl a @ ''/servertime'', None)]\<rparr>)"
  by (simp add: getServerTime_def getServerTime_try_def fetch_def server_time_of_def)

lemma probe_skip:
  assumes "\<not> succeeds (net w (length (sent w)))"
  shows "probe a w =
     (Inr None, w\<lparr>ticks := Suc (ticks w), sent := sent w @ [(baseUrl a @ ''/servertime'', None)]\<rparr>)"
  using assms by (simp add: probe_def Date_now_def getServerTime_eq succeeds_def)

lemma probe_sample:
  assumes "server_time_of (net w (length (sent w))) = Num t" and "t \<noteq> 0"
  shows "probe a w =
     (Inr (Some \<lparr>rtd = real_of_int (clock w (Suc (ticks w)) - clock w (ticks w)),
                 offset = (real_of_int (clock w (Suc (ticks w)) - clock w (ticks w)) / 2 + t)
                            - real_of_int (clock w (Suc (ticks w)))\<rparr>),
      w\<lparr>ticks := Suc (Suc (ticks w)), sent := sent w @ [(baseUrl a @ ''/servertime'', None)]\<rparr>)"
  using assms by (simp add: probe_def Date_now_def getServerTime_eq Let_def plus_half_def minus_int_def)

lemma probe_world:
  "net (snd (probe a w)) = net w \<and> clock (snd (probe a w)) = clock w
   \<and> sent (snd (probe a w)) = sent w @ [(baseUrl a @ ''/servertime'', None)]
   \<and> ticks w < ticks (snd (probe a w))"
  by (simp add: probe_def Date_now_def getServerTime_eq Let_def split: coerced.split number.split)


lemma collect_done: "\<not> real i < sampleCount \<Longrightarrow> collect sampleCount i a w samples = Inr (samples, w)"
  by (simp add: collect.simps)

lemma collect_skip:
  "real i < sampleCount \<Longrightarrow> probe a w = (Inr None, w') \<Longrightarrow>
   collect sampleCount i a w samples = collect sampleCount (Suc i) a w' samples"
  by (subst collect.simps) simp

lemma collect_push:
  "real i < sampleCount \<Longrightarrow> probe a w = (Inr (Some s), w') \<Longrightarrow>
   collect sampleCount i a w samples = collect sampleCount (Suc i) a w' (samples @ [s])"
  by (subst collect.simps) simp

lemma collect_stop:
  "real i < sampleCount \<Longrightarrow> probe a w = (Inl u, w') \<Longrightarrow>
   collect sampleCount i a w samples = Inl u"
  by (subst collect.simps) simp


lemma collect_all_fail:
  "(\<forall>n. \<not> succeeds (net w n)) \<Longrightarrow> \<exists>w'. collect sampleCount i a w samples = Inr (samples, w')"
proof (induction sampleCount i a w samples rule: collect.induct)
  case (1 sampleCount i a w samples)
  show ?case
  proof (cases "real i < sampleCount")
    case False
    then show ?thesis by (simp add: collect_done)
  next
    case True
    let ?w' = "w\<lparr>ticks := Suc (ticks w), sent := sent w @ [(baseUrl a @ ''/servertime'', None)]\<rparr>"
    from "1.prems" have p: "probe a w = (Inr None, ?w')"
      by (simp add: probe_skip)
    from "1.prems" have "\<forall>n. \<not> succeeds (net ?w' n)" by simp
    with "1.IH"(1) [OF True p [symmetric] refl refl] 
    have "\<exists>w''. collect sampleCount (Suc i) a ?w' samples = Inr (samples, w'')"
      by simp
    with True p show ?thesis by (simp add: collect_skip)
  qed
qed

lemma collect_world:
  "collect sampleCount i a w samples = Inr (samples', w') \<Longrightarrow>
   net w' = net w \<and> clock w' = clock w
   \<and> (\<exists>k. sent w' = sent w @ replicate k (baseUrl a @ ''/servertime'', None))"
proof (induction sampleCount i a w samples rule: collect.induct)
  case (1 sampleCount i a w samples)
  show ?case
  proof (cases "real i < sampleCount")
    case False
    with "1.prems" show ?thesis by (simp add: collect_done)
  next
    case True
    obtain r w1 where p: "probe a w = (r, w1)" by (cases "probe a w")
    from probe_world [of a w] p
    have w1: "net w1 = net w" "clock w1 = clock w"
      "sent w1 = sent w @ [(baseUrl a @ ''/servertime'', None)]"
      by simp_all
    show ?thesis
    proof (cases r)
      case (Inl u)
      with True p "1.prems" show ?thesis by (simp add: collect_stop)
    next
      case (Inr so)
      show ?thesis
      proof (cases so)
        case None
        with p Inr have q: "probe a w = (Inr None, w1)" by simp
        from "1.prems" True q have "collect sampleCount (Suc i) a w1 samples = Inr (samples', w')"
          by (simp add: collect_skip)
        from "1.IH"(1) [OF True q [symmetric] refl refl this]
        obtain k where "net w' = net w1" "clock w' = clock w1"
          "sent w' = sent w1 @ replicate k (baseUrl a @ ''/servertime'', None)"
          by blast
        with w1 have "net w' = net w" "clock w' = clock w"
          "sent w' = sent w @ replicate (Suc k) (baseUrl a @ ''/servertime'', None)"
          by simp_all
        then show ?thesis by blast
      next
        case (Some s)
        with p Inr have q: "probe a w = (Inr (Some s), w1)" by simp
        from "1.prems" True q have "collect sampleCount (Suc i) a w1 (samples @ [s]) = Inr (samples', w')"
          by (simp add: collect_push)
        from "1.IH"(2) [OF True q [symmetric] refl refl this]
        obtain k where "net w' = net w1" "clock w' = clock w1"
          "sent w' = sent w1 @ replicate k (baseUrl a @ ''/servertime'', None)"
          by blast
        with w1 have "net w' = net w" "clock w' = clock w"
          "sent w' = sent w @ replicate (Suc k) (baseUrl a @ ''/servertime'', None)"
          by simp_all
        then show ?thesis by blast
      qed
    qed
  qed
qed

subsection \<open>Selection and mean\<close>

lemma syncTime_empty:
  "collect sampleCount 0 a w [] = Inr ([], w') \<Longrightarrow>
   syncTime sampleCount a w = Inr (serverTimeOffset a, a, w')"
  by (simp add: syncTime_def)

lemma syncTime_nonempty:
  "collect sampleCount 0 a w [] = Inr (samples, w') \<Longrightarrow> samples \<noteq> [] \<Longrightarrow>
   syncTime sampleCount a w =
     Inr (averageOffset (selected samples),
          a\<lparr>serverTimeOffset := averageOffset (selected samples)\<rparr>, w')"
  by (simp add: syncTime_def selected_def Let_def)

lemma foldl_offsets: "foldl (\<lambda>acc s. acc + offset s) z xs = z + sum_list (map offset xs)"
  by (induction xs arbitrary: z) simp_all

lemma averageOffset_mean: "averageOffset xs = sum_list (map offset xs) / real (length xs)"
  by (simp add: averageOffset_def foldl_offsets)

lemma ceil_four_fifths: "nat \<lceil>real n * 0.8\<rceil> \<le> n"
proof -
  have "real n * 0.8 \<le> real n" by simp
  then have "\<lceil>real n * 0.8\<rceil> \<le> int n" by (simp add: ceiling_le_iff)
  then show ?thesis by simp
qed

lemma length_sort_samples: "length (sort_samples xs) = length xs"
  by (simp add: sort_samples_def)

lemma length_selected:
  "length (selected samples) =
     (if length samples > 3 then nat \<lceil>real (length samples) * 0.8\<rceil> else length samples)"
  using ceil_four_fifths [of "length samples"]
  by (simp add: selected_def usableSamples_def length_sort_samples)

lemma selected_take: "selected samples = take (length (selected samples)) (sort_samples samples)"
  unfolding length_selected
  by (simp add: selected_def usableSamples_def length_sort_samples)

lemma sorted_sort_samples: "sorted (map rtd (sort_samples samples))"
  by (simp add: sort_samples_def)

lemma mset_sort_samples: "mset (sort_samples samples) = mset samples"
  by (simp add: sort_samples_def)

lemma selected_lowest:
  assumes "x \<in> set (selected samples)" and "y \<in># mset samples - mset (selected samples)"
  shows "rtd x \<le> rtd y"
proof -
  let ?s = "sort_samples samples" and ?k = "length (selected samples)"
  have split: "?s = selected samples @ drop ?k ?s"
    using selected_take [of samples] append_take_drop_id [of ?k ?s] by simp
  then have "mset samples = mset (selected samples) + mset (drop ?k ?s)"
    using mset_sort_samples [of samples] by (metis mset_append)
  then have "mset samples - mset (selected samples) = mset (drop ?k ?s)"
    by simp
  with assms(2) have y: "y \<in> set (drop ?k ?s)" by simp
  from sorted_sort_samples [of samples] split
  have "sorted (map rtd (selected samples) @ map rtd (drop ?k ?s))"
    by (metis map_append)
  with assms(1) y show ?thesis
    by (auto simp: sorted_append)
qed

subsection \<open>The example rounds\<close>

lemmas eval_defs =
  probe_def Date_now_def getServerTime_def getServerTime_try_def fetch_def js_or_def
  plus_half_def minus_int_def
  ex_api_def ex_world_def HandyApi_def

lemma replicate_10: "replicate 10 x = [x, x, x, x, x, x, x, x, x, x]"
  by (simp add: numeral_eq_Suc)


lemma collect_ten_world: "collect 10 0 ex_api ten_world [] = Inr (ten_samples, ten_world_after)"
  by (simp add: collect.simps eval_defs ten_world_def ten_world_after_def ten_samples_def replicate_10)

lemma selected_ten_samples:
  "map rtd (selected ten_samples) = [10, 11, 12, 13, 14, 15, 16, 18]"
  by (simp add: selected_def usableSamples_def sort_samples_def ten_samples_def)

lemma averageOffset_ten_samples: "averageOffset (selected ten_samples) = 15891 / 16"
  by (simp add: selected_def usableSamples_def sort_samples_def ten_samples_def averageOffset_def)


subsection \<open>The sync round\<close>

text \<open>
  C1. When the loop of \<open>syncTime\<close> has collected at least one sample, \<open>syncTime\<close>
  returns the arithmetic mean of the offsets of the selected samples and stores it as
  \<open>serverTimeOffset\<close>. The selected samples are a prefix of the samples sorted
  ascending by \<open>rtd\<close> (a rearrangement of the collected samples): the first
  \<open>ceil(n * 0.8)\<close> when \<open>n > 3\<close> and all \<open>n\<close> otherwise, so no sample left out
  has a smaller delay than a selected one. Of 10 samples, 8 are selected.
\<close>

theorem syncTime_mean_of_lowest_delay:
  assumes "collect sampleCount 0 a w [] = Inr (samples, w')" and "samples \<noteq> []"
  shows "syncTime sampleCount a w =
           Inr (sum_list (map offset (selected samples)) / real (length (selected samples)),
                a\<lparr>serverTimeOffset :=
                    sum_list (map offset (selected samples)) / real (length (selected samples))\<rparr>,
                w')
         \<and> sorted (map rtd (sort_samples samples))
         \<and> mset (sort_samples samples) = mset samples
         \<and> selected samples = take (length (selected samples)) (sort_samples samples)
         \<and> length (selected samples) =
             (if length samples > 3 then nat \<lceil>real (length samples) * 0.8\<rceil> else length samples)
         \<and> (\<forall>x \<in> set (selected samples). \<forall>y \<in># mset samples - mset (selected samples).
               rtd x \<le> rtd y)
         \<and> (length samples = 10 \<longrightarrow> length (selected samples) = 8)"
proof (intro conjI ballI impI)
  from assms show "syncTime sampleCount a w =
           Inr (sum_list (map offset (selected samples)) / real (length (selected samples)),
                a\<lparr>serverTimeOffset :=
                    sum_list (map offset (selected samples)) / real (length (selected samples))\<rparr>,
                w')"
    using syncTime_nonempty [OF assms] by (simp only: averageOffset_mean)
  show "sorted (map rtd (sort_samples samples))"
    by (rule sorted_sort_samples)
  show "mset (sort_samples samples) = mset samples"
    by (rule mset_sort_samples)
  show "selected samples = take (length (selected samples)) (sort_samples samples)"
    by (rule selected_take)
  show "length (selected samples) =
          (if length samples > 3 then nat \<lceil>real (length samples) * 0.8\<rceil> else length samples)"
    by (rule length_selected)
next
  fix x y
  assume "x \<in> set (selected samples)" and "y \<in># mset samples - mset (selected samples)"
  then show "rtd x \<le> rtd y" by (rule selected_lowest)
next
  assume "length samples = 10"
  then show "length (selected samples) = 8"
    by (simp add: length_selected)
qed

theorem syncTime_mean_of_lowest_delay_witness:
  "collect 10 0 ex_api ten_world [] = Inr (ten_samples, ten_world_after)
   \<and> ten_samples \<noteq> []
   \<and> syncTime 10 ex_api ten_world =
       Inr (15891 / 16, ex_api\<lparr>serverTimeOffset := 15891 / 16\<rparr>, ten_world_after)
   \<and> map rtd (selected ten_samples) = [10, 11, 12, 13, 14, 15, 16, 18]
   \<and> length ten_samples = 10
   \<and> length (selected ten_samples) = 8"
proof -
  have ne: "ten_samples \<noteq> []" by (simp add: ten_samples_def)
  have len: "length ten_samples = 10" by (simp add: ten_samples_def)
  have mean: "sum_list (map offset (selected ten_samples)) / real (length (selected ten_samples))
      = 15891 / 16"
    using averageOffset_ten_samples by (simp only: averageOffset_mean)
  note t = syncTime_mean_of_lowest_delay [OF collect_ten_world ne]
  from t have "syncTime 10 ex_api ten_world =
      Inr (sum_list (map offset (selected ten_samples)) / real (length (selected ten_samples)),
           ex_api\<lparr>serverTimeOffset :=
               sum_list (map offset (selected ten_samples)) / real (length (selected ten_samples))\<rparr>,
           ten_world_after)"
    by (rule conjunct1)
  then have r: "syncTime 10 ex_api ten_world =
      Inr (15891 / 16, ex_api\<lparr>serverTimeOffset := 15891 / 16\<rparr>, ten_world_after)"
    by (simp only: mean)
  from t len have eight: "length (selected ten_samples) = 8"
    by blast
  from r eight ne len show ?thesis
    by (simp only: collect_ten_world selected_ten_samples simp_thms)
qed



subsection \<open>One probe\<close>

lemma server_time_of_failures:
  "server_time_of Rejected = Null"
  "server_time_of BadJson = Null"
  "server_time_of (Json Null) = Null"
  "server_time_of (Json (Obj [])) = Null"
  "server_time_of (Json (Obj [(''server_time'', Null)])) = Null"
  by (simp_all add: server_time_of_def js_or_def)

lemmas coerce_defs =
  plus_half_def minus_int_def half_to_string_def digits.simps int_to_string_def
  Number_toString_def StringToNumber_def trim_def is_space_def
  NonDecimalIntegerLiteral_def StrDecimalLiteral_def StrUnsignedDecimalLiteral_def
  digit_in_def digit_value_def number_in_def Let_def

text \<open>
  C3. The code departs from the claim on a reply whose \<open>server_time\<close> is not a number.
  With the clock at 1000 before the request and at 1010 after it, the body
  \<open>{"server_time": "123"}\<close> makes \<open>getServerTime\<close> return the string, which is truthy:
  the probe is not skipped, \<open>rtd / 2 + serverTime\<close> is the string \<open>5123\<close>, and the sample
  pushed has \<open>rtd = 10\<close> and \<open>offset = 5123 - 1010 = 4113\<close>, which a round of one probe
  stores and returns. The number 123 gives the offset \<open>(123 + 10 / 2) - 1010 = -882\<close>
  of the claim. \<open>true\<close> and the array \<open>[123]\<close> are taken likewise, as 1 and as the
  string \<open>123\<close>.
\<close>

theorem probe_takes_non_numeric_time:
  "fst (getServerTime ex_api (ex_world 1000 (Json (Obj [(''server_time'', Str ''123'')]))))
     = Str ''123''
   \<and> fst (probe ex_api (ex_world 1000 (Json (Obj [(''server_time'', Str ''123'')]))))
       = Inr (Some \<lparr>rtd = 10, offset = 4113\<rparr>)
   \<and> syncTime 1 ex_api (ex_world 1000 (Json (Obj [(''server_time'', Str ''123'')])))
       = Inr (4113, ex_api\<lparr>serverTimeOffset := 4113\<rparr>,
              (ex_world 1000 (Json (Obj [(''server_time'', Str ''123'')])))
                \<lparr>ticks := 2, sent := [(''http://h/servertime'', None)]\<rparr>)
   \<and> fst (probe ex_api (ex_world 1000 (Json (Obj [(''server_time'', Num 123)]))))
       = Inr (Some \<lparr>rtd = 10, offset = - 882\<rparr>)
   \<and> fst (probe ex_api (ex_world 1000 (Json (Obj [(''server_time'', Bool True)]))))
       = Inr (Some \<lparr>rtd = 10, offset = - 1004\<rparr>)
   \<and> fst (probe ex_api (ex_world 1000 (Json (Obj [(''server_time'', Arr [Num 123])]))))
       = Inr (Some \<lparr>rtd = 10, offset = 4113\<rparr>)"
proof (intro conjI)
  show "fst (getServerTime ex_api (ex_world 1000 (Json (Obj [(''server_time'', Str ''123'')]))))
     = Str ''123''"
    by (simp add: eval_defs)
  show "fst (probe ex_api (ex_world 1000 (Json (Obj [(''server_time'', Str ''123'')]))))
       = Inr (Some \<lparr>rtd = 10, offset = 4113\<rparr>)"
    by (simp add: eval_defs coerce_defs)
  show "syncTime 1 ex_api (ex_world 1000 (Json (Obj [(''server_time'', Str ''123'')])))
       = Inr (4113, ex_api\<lparr>serverTimeOffset := 4113\<rparr>,
              (ex_world 1000 (Json (Obj [(''server_time'', Str ''123'')])))
                \<lparr>ticks := 2, sent := [(''http://h/servertime'', None)]\<rparr>)"
    by (simp add: syncTime_def collect.simps eval_defs coerce_defs sort_samples_def
          usableSamples_def averageOffset_def)
  show "fst (probe ex_api (ex_world 1000 (Json (Obj [(''server_time'', Num 123)]))))
       = Inr (Some \<lparr>rtd = 10, offset = - 882\<rparr>)"
    by (simp add: eval_defs coerce_defs)
  show "fst (probe ex_api (ex_world 1000 (Json (Obj [(''server_time'', Bool True)]))))
       = Inr (Some \<lparr>rtd = 10, offset = - 1004\<rparr>)"
    by (simp add: eval_defs coerce_defs)
  show "fst (probe ex_api (ex_world 1000 (Json (Obj [(''server_time'', Arr [Num 123])]))))
       = Inr (Some \<lparr>rtd = 10, offset = 4113\<rparr>)"
    by (simp add: eval_defs coerce_defs)
qed

subsection \<open>Failures\<close>

lemmas op_defs =
  isConnected_def isConnected_try_def getDeviceInfo_def getDeviceInfo_try_def
  getMode_def getMode_try_def setupScript_def setupScript_try_def
  play_def play_try_def stop_def stop_try_def
  syncVideoTime_def syncVideoTime_try_def getOffset_def getOffset_try_def
  setOffset_def setOffset_try_def getStrokeSettings_def getStrokeSettings_try_def
  setStrokeSettings_def setStrokeSettings_try_def
  getServerTime_def getServerTime_try_def
  request_get request_put fetch_def estimateServerTime_def Date_now_def

lemma failed_request_try:
  assumes "parsed (net w (length (sent w))) = Inl e"
  shows "fst (isConnected_try a w) = Inl e"
    and "fst (getDeviceInfo_try a w) = Inl e"
    and "fst (getMode_try a w) = Inl e"
    and "fst (setupScript_try u a w) = Inl e"
    and "fst (play_try videoTime playbackRate loop a w) = Inl e"
    and "fst (stop_try a w) = Inl e"
    and "fst (syncVideoTime_try videoTime filter_coeff a w) = Inl e"
    and "fst (getOffset_try a w) = Inl e"
    and "fst (setOffset_try off a w) = Inl e"
    and "fst (getStrokeSettings_try a w) = Inl e"
    and "fst (setStrokeSettings_try smin smax a w) = Inl e"
    and "fst (getServerTime_try a w) = Inl e"
  using assms by (simp_all add: op_defs)

lemma failed_request_value:
  assumes "parsed (net w (length (sent w))) = Inl e"
  shows "fst (isConnected a w) = False"
    and "fst (getDeviceInfo a w) = Null"
    and "fst (getMode a w) = Null"
    and "fst (setupScript u a w) = False"
    and "fst (play videoTime playbackRate loop a w) = Null"
    and "fst (stop a w) = Null"
    and "fst (syncVideoTime videoTime filter_coeff a w) = False"
    and "fst (getOffset a w) = Num 0"
    and "fst (setOffset off a w) = False"
    and "fst (getStrokeSettings a w) = Null"
    and "fst (setStrokeSettings smin smax a w) = Null"
    and "fst (getServerTime a w) = Null"
  using assms by (simp_all add: op_defs)

lemma no_result_value:
  assumes "net w (length (sent w)) = Json d" and "get_prop d ''result'' = Inr Undefined"
  shows "fst (isConnected a w) = False"
    and "fst (getDeviceInfo a w) = Null"
    and "fst (getMode a w) = Null"
    and "fst (setupScript u a w) = False"
    and "fst (play videoTime playbackRate loop a w) = Null"
    and "fst (stop a w) = Null"
    and "fst (syncVideoTime videoTime filter_coeff a w) = False"
    and "fst (getOffset a w) = Num 0"
    and "fst (setOffset off a w) = False"
    and "fst (getStrokeSettings a w) = Null"
    and "fst (setStrokeSettings smin smax a w) = Null"
  using assms by (simp_all add: op_defs js_or_def nullish_def)

lemma failed_not_succeeds: "parsed r = Inl e \<Longrightarrow> \<not> succeeds r"
  by (simp add: succeeds_def server_time_of_def)

lemma get_prop_error_envelope: "get_prop error_envelope ''result'' = Inr Undefined"
  by (simp add: error_envelope_def)

text \<open>
  C7, as stated, fails: on the spec's envelope with an error and no result the read
  operation \<open>getOffset\<close> resolves to 0, not to \<open>null\<close>.
\<close>

theorem getOffset_error_envelope_not_null:
  "fst (getOffset ex_api (ex_world 0 (Json error_envelope))) \<noteq> Null"
  by (simp add: op_defs ex_world_def error_envelope_def js_or_def)

text \<open>
  C7, amended. When the \<open>fetch\<close> of an operation rejects or its body is not JSON, the
  body of the operation throws that error and the operation catches it and resolves
  to its neutral value: false for \<open>isConnected\<close>, \<open>setupScript\<close>, \<open>syncVideoTime\<close>
  and \<open>setOffset\<close>; \<open>null\<close> for \<open>getDeviceInfo\<close>, \<open>getMode\<close>, \<open>play\<close>, \<open>stop\<close>,
  \<open>getStrokeSettings\<close>, \<open>setStrokeSettings\<close> and \<open>getServerTime\<close>; 0 for
  \<open>getOffset\<close>; and \<open>syncTime\<close>, when every \<open>fetch\<close> fails so, returns the stored
  offset and leaves the object unchanged. A body that has no \<open>result\<close> makes the
  same operations (other than \<open>getServerTime\<close> and \<open>syncTime\<close>, which read no \<open>result\<close>)
  resolve to the same values: \<open>null\<close> for \<open>getDeviceInfo\<close>, \<open>getMode\<close> and
  \<open>getStrokeSettings\<close>, false for \<open>isConnected\<close>, 0 for \<open>getOffset\<close>.
\<close>

theorem operations_resolve_to_neutral_value:
  "(parsed (net w (length (sent w))) = Inl e \<longrightarrow>
      fst (isConnected_try a w) = Inl e \<and> fst (isConnected a w) = False
      \<and> fst (getDeviceInfo_try a w) = Inl e \<and> fst (getDeviceInfo a w) = Null
      \<and> fst (getMode_try a w) = Inl e \<and> fst (getMode a w) = Null
      \<and> fst (setupScript_try u a w) = Inl e \<and> fst (setupScript u a w) = False
      \<and> fst (play_try videoTime playbackRate loop a w) = Inl e
      \<and> fst (play videoTime playbackRate loop a w) = Null
      \<and> fst (stop_try a w) = Inl e \<and> fst (stop a w) = Null
      \<and> fst (syncVideoTime_try videoTime filter_coeff a w) = Inl e
      \<and> fst (syncVideoTime videoTime filter_coeff a w) = False
      \<and> fst (getOffset_try a w) = Inl e \<and> fst (getOffset a w) = Num 0
      \<and> fst (setOffset_try off a w) = Inl e \<and> fst (setOffset off a w) = False
      \<and> fst (getStrokeSettings_try a w) = Inl e \<and> fst (getStrokeSettings a w) = Null
      \<and> fst (setStrokeSettings_try smin smax a w) = Inl e
      \<and> fst (setStrokeSettings smin smax a w) = Null
      \<and> fst (getServerTime_try a w) = Inl e \<and> fst (getServerTime a w) = Null)
   \<and> ((\<forall>n. \<exists>e. parsed (net w n) = Inl e) \<longrightarrow>
        (\<exists>w'. syncTime sampleCount a w = Inr (serverTimeOffset a, a, w')))
   \<and> (net w (length (sent w)) = Json d \<and> get_prop d ''result'' = Inr Undefined \<longrightarrow>
        fst (getDeviceInfo a w) = Null
        \<and> fst (getMode a w) = Null
        \<and> fst (getStrokeSettings a w) = Null
        \<and> fst (play videoTime playbackRate loop a w) = Null
        \<and> fst (stop a w) = Null
        \<and> fst (setStrokeSettings smin smax a w) = Null
        \<and> fst (isConnected a w) = False
        \<and> fst (setupScript u a w) = False
        \<and> fst (syncVideoTime videoTime filter_coeff a w) = False
        \<and> fst (setOffset off a w) = False
        \<and> fst (getOffset a w) = Num 0)"
proof (intro conjI impI)
  assume "\<forall>n. \<exists>e. parsed (net w n) = Inl e"
  then have "\<forall>n. \<not> succeeds (net w n)"
    by (blast dest: failed_not_succeeds)
  then obtain w' where "collect sampleCount 0 a w [] = Inr ([], w')"
    using collect_all_fail [of w sampleCount 0 a "[]"] by blast
  then have "syncTime sampleCount a w = Inr (serverTimeOffset a, a, w')"
    by (rule syncTime_empty)
  then show "\<exists>w'. syncTime sampleCount a w = Inr (serverTimeOffset a, a, w')" ..
qed (simp_all only: failed_request_try failed_request_value no_result_value)

theorem operations_resolve_to_neutral_value_witness:
  "parsed (net (ex_world 0 Rejected) (length (sent (ex_world 0 Rejected)))) = Inl NetworkError
   \<and> fst (getDeviceInfo_try ex_api (ex_world 0 Rejected)) = Inl NetworkError
   \<and> fst (getDeviceInfo ex_api (ex_world 0 Rejected)) = Null
   \<and> fst (getOffset ex_api (ex_world 0 Rejected)) = Num 0
   \<and> (\<forall>n. \<exists>e. parsed (net (ex_world 0 Rejected) n) = Inl e)
   \<and> (\<exists>w'. syncTime 3 ex_api (ex_world 0 Rejected) = Inr (5 / 2, ex_api, w'))
   \<and> net (ex_world 0 (Json error_envelope)) (length (sent (ex_world 0 (Json error_envelope))))
       = Json error_envelope
   \<and> get_prop error_envelope ''result'' = Inr Undefined
   \<and> fst (getDeviceInfo ex_api (ex_world 0 (Json error_envelope))) = Null
   \<and> fst (getMode ex_api (ex_world 0 (Json error_envelope))) = Null
   \<and> fst (isConnected ex_api (ex_world 0 (Json error_envelope))) = False
   \<and> fst (getOffset ex_api (ex_world 0 (Json error_envelope))) = Num 0"
proof -
  let ?bad = "ex_world 0 Rejected" and ?err = "ex_world 0 (Json error_envelope)"
  have p: "parsed (net ?bad (length (sent ?bad))) = Inl NetworkError"
    by (simp add: ex_world_def)
  have pall: "\<forall>n. \<exists>e. parsed (net ?bad n) = Inl e"
    by (simp add: ex_world_def)
  have n: "net ?err (length (sent ?err)) = Json error_envelope"
    by (simp add: ex_world_def)
  have off: "serverTimeOffset ex_api = 5 / 2" by (simp add: ex_api_def)
  note tb = operations_resolve_to_neutral_value [of ?bad NetworkError ex_api _ _ _ _ _ _ _ _ 3]
  note te = operations_resolve_to_neutral_value [of ?err _ ex_api _ _ _ _ _ _ _ _ _ error_envelope]
  from tb p have 1: "fst (getDeviceInfo_try ex_api ?bad) = Inl NetworkError"
    and 2: "fst (getDeviceInfo ex_api ?bad) = Null"
    and 3: "fst (getOffset ex_api ?bad) = Num 0"
    by blast+
  from tb pall have 4: "\<exists>w'. syncTime 3 ex_api ?bad = Inr (5 / 2, ex_api, w')"
    unfolding off [symmetric] by blast
  from te n get_prop_error_envelope
  have 5: "fst (getDeviceInfo ex_api ?err) = Null"
    and 6: "fst (getMode ex_api ?err) = Null"
    and 7: "fst (isConnected ex_api ?err) = False"
    and 8: "fst (getOffset ex_api ?err) = Num 0"
    by blast+
  from p pall n get_prop_error_envelope 1 2 3 4 5 6 7 8 show ?thesis
    by (intro conjI)
qed

text \<open>
  C10. A \<open>/servertime\<close> body whose \<open>server_time\<close> is 0 makes \<open>getServerTime\<close> return
  \<open>null\<close>, and the probe of \<open>syncTime\<close> that gets it pushes no sample. \<open>getOffset\<close>
  resolves to 0 when the device reports the offset 0, when the body has no \<open>result\<close>
  and when the request fails.
\<close>

theorem zero_conflated_with_failure:
  "fst (getServerTime a (next_reply (Json (Obj [(''server_time'', Num 0)])) w)) = Null
   \<and> fst (probe a (next_reply (Json (Obj [(''server_time'', Num 0)])) w)) = Inr None
   \<and> fst (getOffset a (next_reply (Json (Obj [(''result'', Obj [(''offset'', Num 0)])])) w)) = Num 0
   \<and> fst (getOffset a (next_reply (Json error_envelope) w)) = Num 0
   \<and> fst (getOffset a (next_reply (Json (Obj [])) w)) = Num 0
   \<and> fst (getOffset a (next_reply Rejected w)) = Num 0
   \<and> fst (getOffset a (next_reply BadJson w)) = Num 0"
proof (intro conjI)
  show "fst (getServerTime a (next_reply (Json (Obj [(''server_time'', Num 0)])) w)) = Null"
    by (simp add: getServerTime_eq next_reply_simps server_time_of_def js_or_def)
  have "\<not> succeeds (net (next_reply (Json (Obj [(''server_time'', Num 0)])) w)
            (length (sent (next_reply (Json (Obj [(''server_time'', Num 0)])) w))))"
    by (simp add: next_reply_simps succeeds_def server_time_of_def js_or_def)
  then show "fst (probe a (next_reply (Json (Obj [(''server_time'', Num 0)])) w)) = Inr None"
    by (simp add: probe_skip)
  show "fst (getOffset a (next_reply (Json (Obj [(''result'', Obj [(''offset'', Num 0)])])) w)) = Num 0"
    by (simp add: getOffset_def getOffset_try_def request_get next_reply_simps js_or_def)
  show "fst (getOffset a (next_reply (Json error_envelope) w)) = Num 0"
    by (simp add: getOffset_def getOffset_try_def request_get next_reply_simps js_or_def
          error_envelope_def)
  show "fst (getOffset a (next_reply (Json (Obj [])) w)) = Num 0"
    by (simp add: getOffset_def getOffset_try_def request_get next_reply_simps js_or_def)
  show "fst (getOffset a (next_reply Rejected w)) = Num 0"
    by (simp add: getOffset_def getOffset_try_def request_get next_reply_simps)
  show "fst (getOffset a (next_reply BadJson w)) = Num 0"
    by (simp add: getOffset_def getOffset_try_def request_get next_reply_simps)
qed

subsection \<open>Requests and fields of a call\<close>

lemma carries_identity_getHeaders:
  "carries_identity a (u, Some \<lparr>http_method = m, headers = getHeaders a, body = b\<rparr>)"
  by (simp add: carries_identity_def getHeaders_def)

lemma not_carries_identity_bare: "\<not> carries_identity a (u, None)"
  by (simp add: carries_identity_def)

lemma sent_requests:
  "sent (snd (isConnected a w)) = sent w @ [(baseUrl a @ ''/connected'', Some \<lparr>http_method = None, headers = getHeaders a, body = None\<rparr>)]"
  "sent (snd (getDeviceInfo a w)) = sent w @ [(baseUrl a @ ''/info'', Some \<lparr>http_method = None, headers = getHeaders a, body = None\<rparr>)]"
  "sent (snd (getMode a w)) = sent w @ [(baseUrl a @ ''/mode'', Some \<lparr>http_method = None, headers = getHeaders a, body = None\<rparr>)]"
  "sent (snd (setupScript u a w)) = sent w @ [(baseUrl a @ ''/hssp/setup'', Some \<lparr>http_method = Some ''PUT'', headers = getHeaders a, body = Some (Obj [(''url'', Str u)])\<rparr>)]"
  "sent (snd (stop a w)) = sent w @ [(baseUrl a @ ''/hssp/stop'', Some \<lparr>http_method = Some ''PUT'', headers = getHeaders a, body = None\<rparr>)]"
  "sent (snd (getOffset a w)) = sent w @ [(baseUrl a @ ''/hstp/offset'', Some \<lparr>http_method = None, headers = getHeaders a, body = None\<rparr>)]"
  "sent (snd (setOffset off a w)) = sent w @ [(baseUrl a @ ''/hstp/offset'', Some \<lparr>http_method = Some ''PUT'', headers = getHeaders a, body = Some (Obj [(''offset'', Num off)])\<rparr>)]"
  "sent (snd (getStrokeSettings a w)) = sent w @ [(baseUrl a @ ''/slider/stroke'', Some \<lparr>http_method = None, headers = getHeaders a, body = None\<rparr>)]"
  "sent (snd (setStrokeSettings smin smax a w)) = sent w @ [(baseUrl a @ ''/slider/stroke'', Some \<lparr>http_method = Some ''PUT'', headers = getHeaders a, body = Some (Obj [(''min'', Num smin), (''max'', Num smax)])\<rparr>)]"
  "sent (snd (getServerTime a w)) = sent w @ [(baseUrl a @ ''/servertime'', None)]"
  by (simp_all add: op_defs)

lemma sent_play:
  "sent (snd (play videoTime playbackRate loop a w)) =
     sent w @ [(baseUrl a @ ''/hssp/play'',
                Some \<lparr>http_method = Some ''PUT'', headers = getHeaders a,
                      body = Some (play_body videoTime (fst (estimateServerTime a w)) playbackRate loop)\<rparr>)]"
  by (simp add: snd_play)

lemma sent_syncVideoTime:
  "sent (snd (syncVideoTime videoTime filter_coeff a w)) =
     sent w @ [(baseUrl a @ ''/hssp/synctime'',
                Some \<lparr>http_method = Some ''PUT'', headers = getHeaders a,
                      body = Some (synctime_body videoTime (fst (estimateServerTime a w)) filter_coeff)\<rparr>)]"
  by (simp add: snd_syncVideoTime)

lemma syncTime_world:
  assumes "syncTime sampleCount a w = Inr (r, a', w')"
  shows "\<exists>k. sent w' = sent w @ replicate k (baseUrl a @ ''/servertime'', None)"
proof -
  from assms obtain samples where "collect sampleCount 0 a w [] = Inr (samples, w')"
    by (auto simp: syncTime_def Let_def split: sum.splits if_splits)
  from collect_world [OF this] show ?thesis by blast
qed

lemma syncTime_object:
  assumes "syncTime sampleCount a w = Inr (r, a', w')"
  shows "a' = a \<or> (\<exists>samples. collect sampleCount 0 a w [] = Inr (samples, w') \<and> samples \<noteq> []
            \<and> a' = a\<lparr>serverTimeOffset := averageOffset (selected samples)\<rparr>)"
  using assms
  by (auto simp: syncTime_def selected_def Let_def split: sum.splits if_splits)

text \<open>The requests a call adds to the log.\<close>

lemma sent_createEventSource:
  "sent (snd (createEventSource a w)) =
     sent w @ [(baseUrl a @ ''/sse?ck='' @ connectionKey a @ ''&apikey='' @ applicationId a, None)]"
  by (simp add: createEventSource_def Let_def)

lemma call_sent:
  assumes "call opn a w = Inr (a', w')"
  shows "\<exists>new. sent w' = sent w @ new
           \<and> (\<forall>rq \<in> set new.
                 rq = (baseUrl a @ ''/servertime'', None)
                 \<or> rq = (baseUrl a @ ''/sse?ck='' @ connectionKey a @ ''&apikey='' @ applicationId a, None)
                 \<or> carries_identity a rq)
           \<and> (opn \<noteq> GetServerTime \<and> (\<forall>c. opn \<noteq> SyncTime c) \<and> opn \<noteq> CreateEventSource \<longrightarrow>
                (\<forall>rq \<in> set new. carries_identity a rq))"
proof (cases opn)
  case (SyncTime c)
  with assms obtain r where "syncTime c a w = Inr (r, a', w')"
    by (auto split: sum.splits)
  from syncTime_world [OF this] obtain k where
    "sent w' = sent w @ replicate k (baseUrl a @ ''/servertime'', None)" ..
  with SyncTime show ?thesis by auto
next
  case (Play videoTime playbackRate loop)
  with assms have "w' = snd (play videoTime playbackRate loop a w)" by auto
  then show ?thesis
    by (simp add: sent_play carries_identity_getHeaders)
next
  case (SyncVideoTime videoTime filter_coeff)
  with assms have "w' = snd (syncVideoTime videoTime filter_coeff a w)" by auto
  then show ?thesis
    by (simp add: sent_syncVideoTime carries_identity_getHeaders)
next
  case CreateEventSource
  with assms have "w' = snd (createEventSource a w)" by auto
  then show ?thesis
    by (simp add: sent_createEventSource CreateEventSource)
qed (use assms in \<open>auto simp: sent_requests carries_identity_getHeaders snd_estimateServerTime\<close>)

text \<open>
  C8, as stated, fails: the request of \<open>getServerTime\<close> has no headers at all, and
  neither has the request that \<open>createEventSource\<close> opens.
\<close>

theorem getServerTime_request_without_headers:
  "sent (snd (getServerTime ex_api (ex_world 0 Rejected))) = [(''http://h/servertime'', None)]
   \<and> \<not> carries_identity ex_api (''http://h/servertime'', None)
   \<and> sent (snd (createEventSource ex_api (ex_world 0 Rejected)))
       = [(''http://h/sse?ck=key&apikey=app'', None)]
   \<and> \<not> carries_identity ex_api (''http://h/sse?ck=key&apikey=app'', None)"
  by (simp add: sent_requests sent_createEventSource not_carries_identity_bare
        ex_api_def ex_world_def HandyApi_def)

text \<open>
  C8, amended. Every request made through \<open>request\<close>, that is every request of a
  public operation other than the \<open>/servertime\<close> requests of \<open>getServerTime\<close> and
  \<open>syncTime\<close> and the \<open>/sse\<close> request of \<open>createEventSource\<close>, has the
  connection-key header and the bearer header of the object at the time of the call.
  A \<open>/servertime\<close> request and the \<open>/sse\<close> request have no headers; the URL of the
  latter has the connection key and the application id in its query. After
  \<open>setConnectionKey(k)\<close> the next request carries \<open>k\<close>.
\<close>

theorem requests_carry_current_identity:
  "(call opn a w = Inr (a', w') \<longrightarrow>
      (\<exists>new. sent w' = sent w @ new
         \<and> (\<forall>rq \<in> set new.
               rq = (baseUrl a @ ''/servertime'', None)
               \<or> rq = (baseUrl a @ ''/sse?ck='' @ connectionKey a @ ''&apikey='' @ applicationId a, None)
               \<or> carries_identity a rq)
         \<and> (opn \<noteq> GetServerTime \<and> (\<forall>c. opn \<noteq> SyncTime c) \<and> opn \<noteq> CreateEventSource \<longrightarrow>
              (\<forall>rq \<in> set new. carries_identity a rq))))
   \<and> call (SetConnectionKey k) a w = Inr (a\<lparr>connectionKey := k\<rparr>, w)
   \<and> sent (snd (getDeviceInfo (a\<lparr>connectionKey := k\<rparr>) w)) =
       sent w @ [(baseUrl a @ ''/info'',
                  Some \<lparr>http_method = None,
                        headers = [(''X-Connection-Key'', k),
                                   (''Authorization'', ''Bearer '' @ applicationId a),
                                   (''Content-Type'', ''application/json''),
                                   (''Accept'', ''application/json'')],
                        body = None\<rparr>)]
   \<and> sent (snd (getServerTime a w)) = sent w @ [(baseUrl a @ ''/servertime'', None)]
   \<and> sent (snd (createEventSource a w)) =
       sent w @ [(baseUrl a @ ''/sse?ck='' @ connectionKey a @ ''&apikey='' @ applicationId a, None)]
   \<and> \<not> carries_identity a (u, None)"
proof (intro conjI impI)
  assume "call opn a w = Inr (a', w')"
  then show "\<exists>new. sent w' = sent w @ new
         \<and> (\<forall>rq \<in> set new.
               rq = (baseUrl a @ ''/servertime'', None)
               \<or> rq = (baseUrl a @ ''/sse?ck='' @ connectionKey a @ ''&apikey='' @ applicationId a, None)
               \<or> carries_identity a rq)
         \<and> (opn \<noteq> GetServerTime \<and> (\<forall>c. opn \<noteq> SyncTime c) \<and> opn \<noteq> CreateEventSource \<longrightarrow>
              (\<forall>rq \<in> set new. carries_identity a rq))"
    by (rule call_sent)
next
  show "call (SetConnectionKey k) a w = Inr (a\<lparr>connectionKey := k\<rparr>, w)"
    by (simp add: setConnectionKey_def)
  show "sent (snd (getDeviceInfo (a\<lparr>connectionKey := k\<rparr>) w)) =
       sent w @ [(baseUrl a @ ''/info'',
                  Some \<lparr>http_method = None,
                        headers = [(''X-Connection-Key'', k),
                                   (''Authorization'', ''Bearer '' @ applicationId a),
                                   (''Content-Type'', ''application/json''),
                                   (''Accept'', ''application/json'')],
                        body = None\<rparr>)]"
    by (simp add: sent_requests getHeaders_def)
  show "sent (snd (getServerTime a w)) = sent w @ [(baseUrl a @ ''/servertime'', None)]"
    by (simp add: sent_requests)
  show "sent (snd (createEventSource a w)) =
       sent w @ [(baseUrl a @ ''/sse?ck='' @ connectionKey a @ ''&apikey='' @ applicationId a, None)]"
    by (rule sent_createEventSource)
  show "\<not> carries_identity a (u, None)"
    by (rule not_carries_identity_bare)
qed

theorem requests_carry_current_identity_witness:
  "call GetDeviceInfo ex_api (ex_world 0 Rejected)
     = Inr (ex_api, snd (getDeviceInfo ex_api (ex_world 0 Rejected)))
   \<and> GetDeviceInfo \<noteq> GetServerTime \<and> (\<forall>c. GetDeviceInfo \<noteq> SyncTime c)
   \<and> GetDeviceInfo \<noteq> CreateEventSource
   \<and> sent (snd (getDeviceInfo ex_api (ex_world 0 Rejected))) =
       [(''http://h/info'',
         Some \<lparr>http_method = None,
               headers = [(''X-Connection-Key'', ''key''), (''Authorization'', ''Bearer app''),
                          (''Content-Type'', ''application/json''),
                          (''Accept'', ''application/json'')],
               body = None\<rparr>)]
   \<and> list_all (carries_identity ex_api) (sent (snd (getDeviceInfo ex_api (ex_world 0 Rejected))))"
proof -
  let ?w = "ex_world 0 Rejected"
  have c: "call GetDeviceInfo ex_api ?w = Inr (ex_api, snd (getDeviceInfo ex_api ?w))"
    by simp
  have s0: "sent ?w = []" by (simp add: ex_world_def)
  have s: "sent (snd (getDeviceInfo ex_api ?w)) =
       [(''http://h/info'',
         Some \<lparr>http_method = None,
               headers = [(''X-Connection-Key'', ''key''), (''Authorization'', ''Bearer app''),
                          (''Content-Type'', ''application/json''),
                          (''Accept'', ''application/json'')],
               body = None\<rparr>)]"
    by (simp add: sent_requests getHeaders_def ex_api_def ex_world_def HandyApi_def)
  note t = requests_carry_current_identity
    [of GetDeviceInfo ex_api ?w ex_api "snd (getDeviceInfo ex_api ?w)" "''key''" "''u''"]
  from t c obtain new where "sent (snd (getDeviceInfo ex_api ?w)) = sent ?w @ new"
    and "\<forall>rq \<in> set new. carries_identity ex_api rq"
    by blast
  with s0 have "list_all (carries_identity ex_api) (sent (snd (getDeviceInfo ex_api ?w)))"
    by (simp add: list_all_iff)
  with c s show ?thesis by simp
qed

text \<open>
  C9, as stated, fails: the public operation \<open>setServerTimeOffset\<close> writes the field.
\<close>

theorem setServerTimeOffset_writes_offset:
  "call (SetServerTimeOffset 5) ex_api (ex_world 0 Rejected)
     = Inr (ex_api\<lparr>serverTimeOffset := 5\<rparr>, ex_world 0 Rejected)
   \<and> serverTimeOffset (ex_api\<lparr>serverTimeOffset := 5\<rparr>) \<noteq> serverTimeOffset ex_api"
  by (simp add: setServerTimeOffset_def ex_api_def)

text \<open>
  C9, amended. \<open>serverTimeOffset\<close> is 0 in a new object and is written only by
  \<open>setServerTimeOffset\<close> and by \<open>syncTime\<close>: every other public operation returns and
  leaves the field unchanged; \<open>setServerTimeOffset(x)\<close> stores \<open>x\<close>; and \<open>syncTime\<close>
  either leaves the object as it was or has collected at least one sample and stores
  the average of the selected ones.
\<close>

theorem serverTimeOffset_written_only_by_setter_and_sync:
  "serverTimeOffset (HandyApi b i k) = 0
   \<and> serverTimeOffset (createHandyApi b i k) = 0
   \<and> ((\<forall>c. opn \<noteq> SyncTime c) \<and> (\<forall>x. opn \<noteq> SetServerTimeOffset x) \<longrightarrow>
        (\<exists>a' w'. call opn a w = Inr (a', w') \<and> serverTimeOffset a' = serverTimeOffset a))
   \<and> call (SetServerTimeOffset x) a w = Inr (a\<lparr>serverTimeOffset := x\<rparr>, w)
   \<and> (call (SyncTime c) a w = Inr (a', w') \<longrightarrow>
        a' = a \<or> (\<exists>samples. collect c 0 a w [] = Inr (samples, w') \<and> samples \<noteq> []
                    \<and> a' = a\<lparr>serverTimeOffset := averageOffset (selected samples)\<rparr>))"
proof (intro conjI impI)
  show "serverTimeOffset (HandyApi b i k) = 0"
    by (simp add: HandyApi_def)
  show "serverTimeOffset (createHandyApi b i k) = 0"
    by (simp add: createHandyApi_def HandyApi_def)
  show "call (SetServerTimeOffset x) a w = Inr (a\<lparr>serverTimeOffset := x\<rparr>, w)"
    by (simp add: setServerTimeOffset_def)
next
  assume "(\<forall>c. opn \<noteq> SyncTime c) \<and> (\<forall>x. opn \<noteq> SetServerTimeOffset x)"
  then show "\<exists>a' w'. call opn a w = Inr (a', w') \<and> serverTimeOffset a' = serverTimeOffset a"
    by (cases opn) (simp_all add: setConnectionKey_def)
next
  assume "call (SyncTime c) a w = Inr (a', w')"
  then obtain r where "syncTime c a w = Inr (r, a', w')"
    by (auto split: sum.splits)
  then show "a' = a \<or> (\<exists>samples. collect c 0 a w [] = Inr (samples, w') \<and> samples \<noteq> []
                    \<and> a' = a\<lparr>serverTimeOffset := averageOffset (selected samples)\<rparr>)"
    by (rule syncTime_object)
qed

theorem serverTimeOffset_written_only_by_setter_and_sync_witness:
  "(\<forall>c. Play 1 1 False \<noteq> SyncTime c) \<and> (\<forall>x. Play 1 1 False \<noteq> SetServerTimeOffset x)
   \<and> (\<exists>a' w'. call (Play 1 1 False) ex_api (ex_world 0 Rejected) = Inr (a', w')
         \<and> serverTimeOffset a' = 5 / 2)
   \<and> call (SyncTime 10) ex_api ten_world
       = Inr (ex_api\<lparr>serverTimeOffset := 15891 / 16\<rparr>, ten_world_after)
   \<and> collect 10 0 ex_api ten_world [] = Inr (ten_samples, ten_world_after)
   \<and> ten_samples \<noteq> []
   \<and> ex_api\<lparr>serverTimeOffset := 15891 / 16\<rparr> \<noteq> ex_api
   \<and> ex_api\<lparr>serverTimeOffset := 15891 / 16\<rparr>
       = ex_api\<lparr>serverTimeOffset := averageOffset (selected ten_samples)\<rparr>"
proof -
  have off: "serverTimeOffset ex_api = 5 / 2" by (simp add: ex_api_def)
  have ne: "ten_samples \<noteq> []" by (simp add: ten_samples_def)
  have sync: "syncTime 10 ex_api ten_world =
      Inr (15891 / 16, ex_api\<lparr>serverTimeOffset := 15891 / 16\<rparr>, ten_world_after)"
    using syncTime_nonempty [OF collect_ten_world ne]
    by (simp only: averageOffset_ten_samples)
  then have c: "call (SyncTime 10) ex_api ten_world
       = Inr (ex_api\<lparr>serverTimeOffset := 15891 / 16\<rparr>, ten_world_after)"
    by simp
  have d: "ex_api\<lparr>serverTimeOffset := 15891 / 16\<rparr> \<noteq> ex_api"
    by (simp add: ex_api_def HandyApi_def)
  note t1 = serverTimeOffset_written_only_by_setter_and_sync
    [of _ _ _ "Play 1 1 False" ex_api "ex_world 0 Rejected"]
  note t2 = serverTimeOffset_written_only_by_setter_and_sync
    [of _ _ _ _ ex_api ten_world _ 10 "ex_api\<lparr>serverTimeOffset := 15891 / 16\<rparr>" ten_world_after]
  from t1 have 1: "\<exists>a' w'. call (Play 1 1 False) ex_api (ex_world 0 Rejected) = Inr (a', w')
         \<and> serverTimeOffset a' = 5 / 2"
    unfolding off by simp
  from t2 c d obtain samples where "collect 10 0 ex_api ten_world [] = Inr (samples, ten_world_after)"
    and "ex_api\<lparr>serverTimeOffset := 15891 / 16\<rparr>
          = ex_api\<lparr>serverTimeOffset := averageOffset (selected samples)\<rparr>"
    by blast
  then have 2: "ex_api\<lparr>serverTimeOffset := 15891 / 16\<rparr>
       = ex_api\<lparr>serverTimeOffset := averageOffset (selected ten_samples)\<rparr>"
    by (simp add: collect_ten_world)
  from 1 2 c d ne collect_ten_world show ?thesis
    by simp
qed

end
